theory Spec2Isabelle
  imports Complex_Main
begin

section \<open>JavaScript values shared by the two controllers\<close>

text \<open>
  Both controllers (\<^verbatim>\<open>IActionApp\<close> in \<^verbatim>\<open>static/app.js\<close>, \<^verbatim>\<open>AdminApp\<close> in
  \<^verbatim>\<open>static/admin.js\<close>) are embedded as functions on an explicit state record. Every
  effect that leaves the controller (a call of \<^verbatim>\<open>addLog\<close>, a direct console call, a
  \<^verbatim>\<open>fetch\<close>, an assignment to an image source, a page reload) is appended to a trace
  kept in the state, in program order. What an awaited call produces (a response, a
  thrown exception) is an argument of the function, so a theorem that quantifies over
  that argument speaks about every outcome of the call.

  Strings are lists of bytes, the UTF-8 encoding of the text: an ASCII character is
  one byte, any other character two to four bytes. A property that is written
  \<^verbatim>\<open>obj.key\<close> is an \<open>option\<close>, \<open>None\<close> standing for \<^verbatim>\<open>undefined\<close>.
  Messages are values of a datatype, one constructor for every message text of the
  source, with the interpolated parts as arguments.
\<close>

datatype log_type = LError | LWarning | LInfo | LSuccess | LDebug

text \<open>\<^verbatim>\<open>this.logLevels = { error: 0, warning: 1, info: 2, success: 2, debug: 3 }\<close>\<close>

fun logLevels :: "log_type \<Rightarrow> nat" where
  "logLevels LError = 0"
| "logLevels LWarning = 1"
| "logLevels LInfo = 2"
| "logLevels LSuccess = 2"
| "logLevels LDebug = 3"

text \<open>\<^verbatim>\<open>shouldLog(type)\<close> with the controller's current level.\<close>

definition shouldLog :: "log_type \<Rightarrow> log_type \<Rightarrow> bool" where
  "shouldLog logLevel type = (logLevels type \<le> logLevels logLevel)"

text \<open>\<^verbatim>\<open>v || d\<close> on a string that may be undefined: the empty string is falsy.\<close>

definition truthy :: "string option \<Rightarrow> bool" where
  "truthy v = (case v of None \<Rightarrow> False | Some s \<Rightarrow> s \<noteq> [])"

definition or_else :: "string option \<Rightarrow> string \<Rightarrow> string" where
  "or_else v d = (case v of None \<Rightarrow> d | Some s \<Rightarrow> if s = [] then d else s)"

text \<open>\<^verbatim>\<open>s.startsWith(p)\<close>.\<close>

fun starts_with :: "string \<Rightarrow> string \<Rightarrow> bool" where
  "starts_with s [] = True"
| "starts_with [] (p # ps) = False"
| "starts_with (c # cs) (p # ps) = (c = p \<and> starts_with cs ps)"

text \<open>
  The line terminators of ECMAScript (line feed, carriage return, U+2028, U+2029) and
  its white space (tab, vertical tab, form feed, space, U+00A0, U+FEFF and the space
  separators U+1680, U+2000 to U+200A, U+202F, U+205F, U+3000), each as the bytes of
  its encoding.
\<close>

definition line_terminators :: "string list" where
  "line_terminators =
     [[CHR 0x0A], [CHR 0x0D], [CHR 0xE2, CHR 0x80, CHR 0xA8], [CHR 0xE2, CHR 0x80, CHR 0xA9]]"

definition white_space :: "string list" where
  "white_space =
     line_terminators
     @ [[CHR 0x09], [CHR 0x0B], [CHR 0x0C], [CHR 0x20],
        [CHR 0xC2, CHR 0xA0], [CHR 0xEF, CHR 0xBB, CHR 0xBF], [CHR 0xE1, CHR 0x9A, CHR 0x80],
        [CHR 0xE2, CHR 0x80, CHR 0x80], [CHR 0xE2, CHR 0x80, CHR 0x81],
        [CHR 0xE2, CHR 0x80, CHR 0x82], [CHR 0xE2, CHR 0x80, CHR 0x83],
        [CHR 0xE2, CHR 0x80, CHR 0x84], [CHR 0xE2, CHR 0x80, CHR 0x85],
        [CHR 0xE2, CHR 0x80, CHR 0x86], [CHR 0xE2, CHR 0x80, CHR 0x87],
        [CHR 0xE2, CHR 0x80, CHR 0x88], [CHR 0xE2, CHR 0x80, CHR 0x89],
        [CHR 0xE2, CHR 0x80, CHR 0x8A], [CHR 0xE2, CHR 0x80, CHR 0xAF],
        [CHR 0xE2, CHR 0x81, CHR 0x9F], [CHR 0xE3, CHR 0x80, CHR 0x80]]"

text \<open>
  Removing from the front of a string every leading occurrence of one of the given
  byte sequences, none of which is empty. \<^verbatim>\<open>String.prototype.trim\<close> removes the
  white space at both ends; at the end of a string the encodings are matched from
  their last byte backwards.
\<close>

fun strip_leading :: "string list \<Rightarrow> string \<Rightarrow> string" where
  "strip_leading ws [] = []"
| "strip_leading ws (c # cs) =
     (case List.find (starts_with (c # cs)) ws of
        None \<Rightarrow> c # cs
      | Some w \<Rightarrow> strip_leading ws (drop (length w - 1) cs))"

definition trim :: "string \<Rightarrow> string" where
  "trim s = rev (strip_leading (map rev white_space) (rev (strip_leading white_space s)))"

datatype http_method = GET | POST | PATCH | DELETE

section \<open>IActionApp (static/app.js)\<close>

datatype status_text = EnLigne | HorsLigne | ErreurDeConnexion | NonConfiguree | Inconnu

datatype app_msg =
    CaptureDetectedUiUpdated
  | CaptureStoppedUiUpdated
  | ToggleButtonAvailable
  | ConfigFetchFailed
  | RtspUrlNotConfigured
  | StartingRtspCapture string
  | StartingHaPollingCapture
  | Verbatim string
  | CaptureStartedDefault
  | ErrorColon string
  | UnknownStartError
  | CriticalStartError string
  | CameraInfos "status_text option"
  | CaptureHalted
  | StopError string
  | DetectionsLoaded nat
  | DetectionsLoadError string
  | NameAndPhraseRequired
  | NoChangeDetected
  | InvalidWebhookUrl
  | DetectionDone string string
  | SaveError string
  | SpinnerShown
  | SpinnerHidden bool
  | CaptureStatusCheck string

datatype app_event =
    AddLog log_type app_msg
  | Console log_type app_msg
  | Fetch http_method string "(string \<times> string) list"
  | SetVideoSrc string
  | ClearInterval nat
  | ModalHide
  | FormReset string

record detection =
  det_id :: string
  det_name :: string
  det_phrase :: string
  det_webhook_url :: "string option"

text \<open>
  The fields of \<^verbatim>\<open>IActionApp\<close> that the modelled methods touch, followed by the
  properties of the page elements they read and write. The page's markup is not part
  of the repository: the elements the code dereferences without a null test
  (\<^verbatim>\<open>start-capture\<close>, \<^verbatim>\<open>stop-capture\<close>, \<^verbatim>\<open>toggle-video-stream\<close>, \<^verbatim>\<open>no-capture\<close>,
  \<^verbatim>\<open>capture-ready\<close>, \<^verbatim>\<open>video-stream\<close>, the spinner's two spans) are taken to exist;
  \<^verbatim>\<open>toggle-video-text\<close>, which \<^verbatim>\<open>stopVideoStream\<close> tests, is optional.
\<close>

record app_state =
  isCapturing :: bool
  captureInProgress :: bool
  isVideoStreamVisible :: bool
  videoUpdateInterval :: "nat option"
  editDetectionId :: "string option"
  detections :: "detection list"
  start_capture_disabled :: bool
  stop_capture_disabled :: bool
  start_capture_content_d_none :: bool
  start_capture_loading_d_none :: bool
  toggle_video_stream_display :: string
  no_capture_display :: string
  capture_ready_display :: string
  video_stream_display :: string
  video_stream_src :: string
  toggle_video_text :: "string option"
  toggle_icon_className :: string
  detections_list :: "detection list"
  modal_shown :: bool
  app_trace :: "app_event list"

definition emit :: "app_event \<Rightarrow> app_state \<Rightarrow> app_state" where
  "emit e s = s\<lparr>app_trace := app_trace s @ [e]\<rparr>"

text \<open>
  \<^verbatim>\<open>addLog(message, type)\<close> prints through \<^verbatim>\<open>consoleLog\<close> when \<^verbatim>\<open>shouldLog(type)\<close>
  holds. The trace records the call; \<open>console_lines\<close> gives what a log level lets
  through to the console.
\<close>

definition addLog :: "app_msg \<Rightarrow> log_type \<Rightarrow> app_state \<Rightarrow> app_state" where
  "addLog message type s = emit (AddLog type message) s"

fun console_lines :: "log_type \<Rightarrow> app_event list \<Rightarrow> (log_type \<times> app_msg) list" where
  "console_lines lvl [] = []"
| "console_lines lvl (AddLog t m # es) =
     (if shouldLog lvl t then (t, m) # console_lines lvl es else console_lines lvl es)"
| "console_lines lvl (Console t m # es) = (t, m) # console_lines lvl es"
| "console_lines lvl (e # es) = console_lines lvl es"

definition updateCaptureControls :: "app_state \<Rightarrow> app_state" where
  "updateCaptureControls s =
     (if isCapturing s
      then s\<lparr>start_capture_disabled := True, stop_capture_disabled := False\<rparr>
      else s\<lparr>start_capture_disabled := False, stop_capture_disabled := True\<rparr>)"

definition showCaptureLoading :: "bool \<Rightarrow> app_state \<Rightarrow> app_state" where
  "showCaptureLoading show s =
     (if show
      then emit (Console LDebug SpinnerShown)
             (s\<lparr>start_capture_disabled := True,
                start_capture_content_d_none := True,
                start_capture_loading_d_none := False\<rparr>)
      else emit (Console LDebug (SpinnerHidden (isCapturing s)))
             (let s1 = s\<lparr>start_capture_content_d_none := False,
                           start_capture_loading_d_none := True\<rparr>
              in if \<not> isCapturing s1 then s1\<lparr>start_capture_disabled := False\<rparr> else s1))"

definition showToggleButton :: "app_state \<Rightarrow> app_state" where
  "showToggleButton s =
     addLog ToggleButtonAvailable LInfo
       (s\<lparr>toggle_video_stream_display := ''block'',
          no_capture_display := ''none'',
          capture_ready_display := ''block'',
          isVideoStreamVisible := False\<rparr>)"

definition hideToggleButton :: "app_state \<Rightarrow> app_state" where
  "hideToggleButton s =
     s\<lparr>toggle_video_stream_display := ''none'',
       no_capture_display := ''block'',
       capture_ready_display := ''none'',
       isVideoStreamVisible := False\<rparr>"

definition stopVideoStream :: "app_state \<Rightarrow> app_state" where
  "stopVideoStream s =
     (let s1 = (case videoUpdateInterval s of
                  None \<Rightarrow> s
                | Some h \<Rightarrow> if h = 0 then s
                            else (emit (ClearInterval h) s)\<lparr>videoUpdateInterval := None\<rparr>);
          s2 = emit (SetVideoSrc '''')
                 (s1\<lparr>video_stream_display := ''none'', video_stream_src := ''''\<rparr>);
          s3 = (if captureInProgress s2 then s2\<lparr>capture_ready_display := ''block''\<rparr> else s2);
          s4 = s3\<lparr>isVideoStreamVisible := False\<rparr>
      in case toggle_video_text s4 of
           None \<Rightarrow> s4
         | Some _ \<Rightarrow> s4\<lparr>toggle_video_text := Some ''Voir le flux live'',
                         toggle_icon_className := ''bi bi-eye''\<rparr>)"

text \<open>
  What \<^verbatim>\<open>GET /api/capture_status\<close> produced: the fetch (or reading the JSON body)
  threw, or a response arrived with its \<^verbatim>\<open>ok\<close> flag and the truth value of
  \<^verbatim>\<open>data.is_capturing\<close>.
\<close>

datatype status_reply = StatusThrows string | StatusResponse bool bool

definition checkCaptureStatusUpdate :: "status_reply \<Rightarrow> app_state \<Rightarrow> app_state" where
  "checkCaptureStatusUpdate reply s0 =
     (let s = emit (Fetch GET ''/api/capture_status'' []) s0
      in case reply of
           StatusThrows m \<Rightarrow> emit (Console LDebug (CaptureStatusCheck m)) s
         | StatusResponse ok is_capturing \<Rightarrow>
             if ok then
               (let wasCapturing = captureInProgress s
                in if is_capturing \<and> \<not> wasCapturing then
                     addLog CaptureDetectedUiUpdated LSuccess
                       (showCaptureLoading False
                         (showToggleButton
                           (updateCaptureControls
                             (s\<lparr>isCapturing := True, captureInProgress := True\<rparr>))))
                   else if \<not> is_capturing \<and> wasCapturing then
                     addLog CaptureStoppedUiUpdated LInfo
                       (showCaptureLoading False
                         (stopVideoStream
                           (hideToggleButton
                             (updateCaptureControls
                               (s\<lparr>isCapturing := False, captureInProgress := False\<rparr>)))))
                   else s)
             else s)"

subsection \<open>Capture lifecycle\<close>

text \<open>
  An awaited request either throws (the fetch is rejected, or the body is not JSON and
  \<^verbatim>\<open>response.json()\<close> is rejected) or yields the response's \<^verbatim>\<open>ok\<close> flag with the
  parsed body.
\<close>

datatype 'a fetched = Throws string | Response bool 'a

record server_config =
  capture_mode :: "string option"
  rtsp_url :: "string option"

record camera_info =
  cam_type :: "string option"
  test_status :: "string option"

record start_result =
  sr_message :: "string option"
  sr_camera :: "camera_info option"
  sr_error :: "string option"

record stop_result =
  st_error :: "string option"

definition statusText :: "string \<Rightarrow> status_text" where
  "statusText k =
     (if k = ''online'' then EnLigne
      else if k = ''offline'' then HorsLigne
      else if k = ''error'' then ErreurDeConnexion
      else if k = ''not_configured'' then NonConfiguree
      else Inconnu)"

definition displayCameraInfo :: "camera_info option \<Rightarrow> app_state \<Rightarrow> app_state" where
  "displayCameraInfo camera s =
     (case camera of
        None \<Rightarrow> s
      | Some c \<Rightarrow>
          if cam_type c \<noteq> Some ''rtsp'' then s
          else addLog
                 (CameraInfos (if truthy (test_status c)
                               then Some (statusText (the (test_status c))) else None))
                 LInfo s)"

definition start_body :: "string \<Rightarrow> string option \<Rightarrow> (string \<times> string) list" where
  "start_body captureMode rtspUrl =
     (if captureMode = ''rtsp''
      then [(''source'', or_else rtspUrl []), (''type'', ''rtsp''),
            (''rtsp_url'', or_else rtspUrl [])]
      else [(''type'', ''ha_polling'')])"

definition startCapture ::
  "server_config fetched \<Rightarrow> start_result fetched \<Rightarrow> app_state \<Rightarrow> app_state" where
  "startCapture configReply startReply s0 =
     (let s = emit (Fetch GET ''/api/config'' []) s0
      in case configReply of
           Throws m \<Rightarrow> addLog ConfigFetchFailed LError s
         | Response ok config \<Rightarrow>
             (let captureMode = or_else (capture_mode config) ''rtsp'';
                  rtspUrl = (if truthy (rtsp_url config) then rtsp_url config else None)
              in if captureMode = ''rtsp'' \<and> \<not> truthy rtspUrl
                 then addLog RtspUrlNotConfigured LWarning s
                 else
                   (let s1 = showCaptureLoading True s;
                        s2 = addLog (if captureMode = ''rtsp''
                                     then StartingRtspCapture (or_else rtspUrl [])
                                     else StartingHaPollingCapture) LInfo s1;
                        s3 = emit (Fetch POST ''/api/start_capture''
                                     (start_body captureMode rtspUrl)) s2;
                        s4 = (case startReply of
                                Throws m \<Rightarrow>
                                  addLog (CriticalStartError m) LError
                                    (emit (Console LError (CriticalStartError m)) s3)
                              | Response rok result \<Rightarrow>
                                  if rok then
                                    displayCameraInfo (sr_camera result)
                                      (addLog (if truthy (sr_message result)
                                               then Verbatim (the (sr_message result))
                                               else CaptureStartedDefault) LSuccess
                                        (showToggleButton
                                          (updateCaptureControls
                                            (s3\<lparr>isCapturing := True,
                                                captureInProgress := True\<rparr>))))
                                  else
                                    addLog (if truthy (sr_error result)
                                            then ErrorColon (the (sr_error result))
                                            else UnknownStartError) LError s3)
                    in showCaptureLoading False s4)))"

definition stopCapture :: "stop_result fetched \<Rightarrow> app_state \<Rightarrow> app_state" where
  "stopCapture reply s0 =
     (let s = emit (Fetch POST ''/api/stop_capture'' []) s0;
          s1 = (case reply of
                  Throws m \<Rightarrow> addLog (StopError m) LError s
                | Response ok result \<Rightarrow>
                    if ok then
                      addLog CaptureHalted LInfo
                        (showCaptureLoading False
                          (stopVideoStream
                            (hideToggleButton
                              (updateCaptureControls
                                (s\<lparr>isCapturing := False, captureInProgress := False\<rparr>)))))
                    else
                      addLog (ErrorColon (case st_error result of
                                            None \<Rightarrow> ''undefined'' | Some e \<Rightarrow> e)) LError s)
      in showCaptureLoading False s1)"

subsection \<open>Detections\<close>

text \<open>
  \<^verbatim>\<open>loadDetections\<close> reads the body of \<^verbatim>\<open>GET /api/detections\<close> without looking at
  the status. The reply is a failure or the JSON array of detections that the
  endpoint serves.
\<close>

datatype detections_reply = DetectionsThrow string | DetectionsArray "detection list"

definition updateDetectionsList :: "app_state \<Rightarrow> app_state" where
  "updateDetectionsList s = s\<lparr>detections_list := detections s\<rparr>"

definition loadDetections :: "detections_reply \<Rightarrow> app_state \<Rightarrow> app_state" where
  "loadDetections reply s0 =
     (let s = emit (Fetch GET ''/api/detections'' []) s0
      in case reply of
           DetectionsThrow m \<Rightarrow> addLog (DetectionsLoadError m) LError s
         | DetectionsArray ds \<Rightarrow>
             addLog (DetectionsLoaded (length ds)) LInfo
               (updateDetectionsList (s\<lparr>detections := ds\<rparr>)))"

fun str_includes :: "string \<Rightarrow> string \<Rightarrow> bool" where
  "str_includes [] sub = (sub = [])"
| "str_includes (c # cs) sub = (starts_with (c # cs) sub \<or> str_includes cs sub)"

text \<open>
  \<^verbatim>\<open>toLowerCase\<close> on the letters of ASCII; the bytes of other characters are kept.
\<close>

definition to_lower :: "char \<Rightarrow> char" where
  "to_lower c =
     (let n = (of_char c :: nat)
      in if 65 \<le> n \<and> n \<le> 90 then char_of (n + 32) else c)"

definition toLowerCase :: "string \<Rightarrow> string" where
  "toLowerCase s = map to_lower s"

text \<open>
  \<^verbatim>\<open>webhookUrl.match(/^https?:\/\/.+/)\<close>: the scheme, then at least one character
  that is not a line terminator.
\<close>

definition matches_http_url :: "string \<Rightarrow> bool" where
  "matches_http_url w =
     (let rest = (if starts_with w ''https://'' then Some (drop 8 w)
                  else if starts_with w ''http://'' then Some (drop 7 w)
                  else None)
      in case rest of
           None \<Rightarrow> False
         | Some r \<Rightarrow> r \<noteq> [] \<and> List.find (starts_with r) line_terminators = None)"

text \<open>
  The response to the save request. \<open>body_json\<close> is what \<^verbatim>\<open>JSON.parse\<close> makes of
  \<open>body_text\<close>: \<open>None\<close> when the text is not JSON, otherwise the body's \<^verbatim>\<open>error\<close>
  property (the only one \<^verbatim>\<open>saveDetection\<close> reads). A body is a stream that is read
  once: \<^verbatim>\<open>response.json()\<close> reads it before it parses, so after a rejected
  \<^verbatim>\<open>json()\<close> the call of \<^verbatim>\<open>response.text()\<close> in the fallback is rejected with a
  \<^verbatim>\<open>TypeError\<close>, which leaves the inner \<^verbatim>\<open>catch\<close> block for the outer one.
\<close>

record save_response =
  resp_statusText :: string
  resp_content_type :: "string option"
  body_text :: string
  body_json :: "string option option"

definition body_already_read :: string where
  "body_already_read = ''body stream already read''"

text \<open>
  Reading the body: \<open>Inl\<close> is the exception that reaches the outer \<^verbatim>\<open>catch\<close>,
  \<open>Inr (result, rawText)\<close> the two variables after the \<^verbatim>\<open>if\<close>.
\<close>

definition read_body :: "save_response \<Rightarrow> string + (string option option \<times> string)" where
  "read_body r =
     (if str_includes (toLowerCase (or_else (resp_content_type r) [])) ''application/json''
      then (case body_json r of
              Some v \<Rightarrow> Inr (Some v, [])
            | None \<Rightarrow> Inl body_already_read)
      else Inr (body_json r, body_text r))"

definition saveDetection ::
  "string \<Rightarrow> string \<Rightarrow> string \<Rightarrow> save_response fetched \<Rightarrow> detections_reply
     \<Rightarrow> app_state \<Rightarrow> app_state" where
  "saveDetection name_value phrase_value webhook_value reply listReply s =
     (let name = trim name_value;
          phrase = trim phrase_value;
          webhookUrl = trim webhook_value;
          editing = truthy (editDetectionId s)
      in if \<not> editing \<and> (name = [] \<or> phrase = [])
         then addLog NameAndPhraseRequired LWarning s
         else if editing \<and> name = [] \<and> phrase = [] \<and> False
         then addLog NoChangeDetected LWarning s
         else if webhookUrl \<noteq> [] \<and> \<not> matches_http_url webhookUrl
         then addLog InvalidWebhookUrl LWarning s
         else
           (let requestBody =
                  (if \<not> editing \<or> name \<noteq> [] then [(''name'', name)] else [])
                  @ (if \<not> editing \<or> phrase \<noteq> [] then [(''phrase'', phrase)] else [])
                  @ [(''webhook_url'', webhookUrl)];
                url = (if editing then ''/api/detections/'' @ the (editDetectionId s)
                       else ''/api/detections'');
                method = (if editing then PATCH else POST);
                actionLog = (if editing then ''mise a jour'' else ''ajoutee'');
                s1 = emit (Fetch method url requestBody) s
            in case reply of
                 Throws m \<Rightarrow> addLog (SaveError m) LError s1
               | Response ok r \<Rightarrow>
                   (case read_body r of
                      Inl m \<Rightarrow> addLog (SaveError m) LError s1
                    | Inr (result, rawText) \<Rightarrow>
                        if ok then
                          emit (FormReset ''detection-form'')
                            (addLog (DetectionDone actionLog name) LSuccess
                              ((loadDetections listReply
                                 (emit ModalHide (s1\<lparr>modal_shown := False\<rparr>)))
                               \<lparr>editDetectionId := None\<rparr>))
                        else
                          addLog (ErrorColon
                                    (if (case result of Some e \<Rightarrow> truthy e | None \<Rightarrow> False)
                                     then the (the result)
                                     else if rawText \<noteq> [] then take 200 rawText
                                     else resp_statusText r)) LError s1)))"

text \<open>
  The capture controls are at rest: the spinner is hidden, the start button's label
  shown, and the two buttons follow \<^verbatim>\<open>isCapturing\<close> as \<^verbatim>\<open>updateCaptureControls\<close>
  sets them.
\<close>

definition ui_stable :: "app_state \<Rightarrow> bool" where
  "ui_stable s =
     (start_capture_loading_d_none s \<and> \<not> start_capture_content_d_none s
      \<and> start_capture_disabled s = isCapturing s
      \<and> stop_capture_disabled s = (\<not> isCapturing s))"

section \<open>AdminApp (static/admin.js)\<close>

text \<open>
  Non-ASCII characters of the source's string literals are written as the bytes of
  their UTF-8 encoding.
\<close>

definition bullet :: string where
  "bullet = [CHR 0x20, CHR 0xE2, CHR 0x80, CHR 0xA2, CHR 0x20]"

definition Camera_word :: string where
  "Camera_word = ''Cam'' @ [CHR 0xC3, CHR 0xA9] @ ''ra''"

text \<open>Template interpolation of a property that may be undefined.\<close>

definition interp :: "string option \<Rightarrow> string" where
  "interp v = (case v of None \<Rightarrow> ''undefined'' | Some s \<Rightarrow> s)"

subsection \<open>Decimal output and input\<close>

text \<open>\<^verbatim>\<open>`${n}`\<close> for a non-negative integer: its decimal digits.\<close>

definition digit_char :: "nat \<Rightarrow> char" where
  "digit_char d = char_of (48 + d)"

fun show_nat :: "nat \<Rightarrow> string" where
  "show_nat n = (if n < 10 then [digit_char n] else show_nat (n div 10) @ [digit_char (n mod 10)])"

declare show_nat.simps [simp del]

text \<open>
  \<^verbatim>\<open>Number(s)\<close> and \<^verbatim>\<open>parseFloat(s)\<close> on decimal literals: an optional sign, digits
  with an optional fraction (or a fraction alone), an optional exponent. \<open>None\<close> is
  \<^verbatim>\<open>NaN\<close>. Values are exact rationals: the rounding of binary floating point is not
  modelled, nor are \<^verbatim>\<open>Infinity\<close> and the radix prefixes that \<^verbatim>\<open>Number\<close> accepts.
  Both functions round a literal to the same double, and no double lies between 1/10
  and the double nearest to it, nor between 60 and itself: a double compares with the
  bounds 0.1 and 60 of the source as it does with the rationals 1/10 and 60.
\<close>

definition is_digit :: "char \<Rightarrow> bool" where
  "is_digit c = (48 \<le> (of_char c :: nat) \<and> (of_char c :: nat) \<le> 57)"

definition digits_val :: "string \<Rightarrow> nat" where
  "digits_val ds = foldl (\<lambda>a c. 10 * a + ((of_char c :: nat) - 48)) 0 ds"

definition parse_exponent :: "string \<Rightarrow> (int \<times> string) option" where
  "parse_exponent s =
     (case s of
        [] \<Rightarrow> None
      | e # r \<Rightarrow>
          if e = CHR ''e'' \<or> e = CHR ''E'' then
            (let (neg, r1) = (case r of
                                [] \<Rightarrow> (False, r)
                              | c # r' \<Rightarrow> if c = CHR ''-'' then (True, r')
                                         else if c = CHR ''+'' then (False, r')
                                         else (False, r));
                 ds = takeWhile is_digit r1
             in if ds = [] then None
                else Some ((if neg then - int (digits_val ds) else int (digits_val ds)),
                           dropWhile is_digit r1))
          else None)"

definition pow10 :: "int \<Rightarrow> rat" where
  "pow10 e = (if 0 \<le> e then 10 ^ nat e else 1 / 10 ^ nat (- e))"

definition parse_unsigned :: "string \<Rightarrow> (rat \<times> string) option" where
  "parse_unsigned s =
     (let ip = takeWhile is_digit s;
          r1 = dropWhile is_digit s;
          (frac, r2) = (case r1 of
                          [] \<Rightarrow> ([], r1)
                        | c # r \<Rightarrow> if c = CHR ''.'' \<and> (ip \<noteq> [] \<or> takeWhile is_digit r \<noteq> [])
                                   then (takeWhile is_digit r, dropWhile is_digit r)
                                   else ([], r1))
      in if ip = [] \<and> frac = [] then None
         else (let m = of_nat (digits_val (ip @ frac)) / 10 ^ length frac
               in case parse_exponent r2 of
                    None \<Rightarrow> Some (m, r2)
                  | Some (e, r3) \<Rightarrow> Some (m * pow10 e, r3)))"

definition parse_signed :: "string \<Rightarrow> (rat \<times> string) option" where
  "parse_signed s =
     (case s of
        [] \<Rightarrow> None
      | c # r \<Rightarrow>
          if c = CHR ''+'' then parse_unsigned r
          else if c = CHR ''-'' then map_option (\<lambda>(v, rest). (- v, rest)) (parse_unsigned r)
          else parse_unsigned s)"


definition Number :: "string \<Rightarrow> rat option" where
  "Number s =
     (let t = trim s
      in if t = [] then Some 0
         else (case parse_signed t of
                 Some (v, []) \<Rightarrow> Some v
               | _ \<Rightarrow> None))"

text \<open>Comparisons with \<^verbatim>\<open>NaN\<close> are false.\<close>

definition js_less :: "rat option \<Rightarrow> rat option \<Rightarrow> bool" where
  "js_less a b = (case (a, b) of (Some x, Some y) \<Rightarrow> x < y | _ \<Rightarrow> False)"

text \<open>\<^verbatim>\<open>s.replace(",", ".")\<close> replaces the first comma only.\<close>

fun replace_first :: "char \<Rightarrow> char \<Rightarrow> string \<Rightarrow> string" where
  "replace_first a b [] = []"
| "replace_first a b (c # cs) = (if c = a then b # cs else c # replace_first a b cs)"

subsection \<open>State\<close>

record camera_config =
  cc_id :: string
  cc_name :: string
  cc_mode :: string
  cc_rtsp_url :: "string option"
  cc_rtsp_username :: "string option"
  cc_rtsp_password :: "string option"
  cc_ha_entity :: "string option"
  cc_ha_attr :: "string option"
  cc_ha_interval :: "string option"

datatype admin_body =
    NoBody
  | ConfigBody "(string \<times> string) list"
  | RtspTestBody "string option"
  | CamerasBody "camera_config list"
  | IntervalBody string rat

datatype admin_msg =
    RestartStarting
  | RestartInitiated
  | WaitingForServer
  | ServerBackReloading
  | CannotConfirmRestart
  | RestartError string
  | AiTestStart
  | AiOk string string
  | AiKo string
  | MqttTestStart
  | MqttOk string string string
  | MqttNotConnected string string
  | MqttKo string
  | RtspTestStart
  | RtspStatus string string
  | RtspKo string
  | CamerasTestStart
  | NoAdditionalCamera
  | TestingCameras nat
  | CamerasAllOk nat nat
  | CamerasPartial nat nat
  | CameraResult bool string string
  | CamerasTestError string
  | CameraExists string
  | CameraAdded string
  | CameraRemoved string
  | CamerasReset
  | SavingConfig
  | ConfigInvalid
  | ConfigSaved
  | PartiallyApplied
  | ConfigError string
  | ConfigSaveError string
  | OpenAiKeyRequired
  | OllamaModelRequired
  | OllamaUrlInvalid
  | MqttBrokerRequired
  | IntervalFieldMissing string
  | IntervalInvalid string
  | IntervalUpdating string rat
  | IntervalUpdated string rat
  | IntervalUpdateFailed string string
  | IntervalCommError string string
  | DebugData

datatype admin_event =
    ALog log_type admin_msg
  | AConsole log_type admin_msg
  | AFetch http_method string "nat option" admin_body
  | Reload
  | Focus string
  | AppliedFlash string

text \<open>
  An input or select element: the attributes and properties that the code reads and
  writes. \<open>f_visible\<close> is \<^verbatim>\<open>offsetParent !== null\<close>; \<open>f_min\<close> and \<open>f_max\<close> are
  empty when the attribute is absent. \<open>f_value\<close> is the string that the
  \<^verbatim>\<open>value\<close> property returns. An assignment to \<^verbatim>\<open>value\<close> stores the string it
  is given; which strings an input of type number can hold is said by
  \<open>number_input_value\<close> below, in the theorems that depend on it.
\<close>

record field =
  f_name :: string
  f_type :: string
  f_value :: string
  f_min :: string
  f_max :: string
  f_visible :: bool
  f_is_invalid :: bool
  f_is_valid :: bool

text \<open>
  A camera form fragment: the \<^verbatim>\<open>div\<close> that \<^verbatim>\<open>addCameraConfig\<close> appends to
  \<^verbatim>\<open>#additional-cameras\<close>, with its \<^verbatim>\<open>data-camera-id\<close> and its inputs and selects in
  document order.
\<close>

record fragment =
  data_camera_id :: string
  inputs :: "field list"

record badge =
  b_class :: string
  b_text :: string
  b_title :: string

text \<open>
  The page as \<^verbatim>\<open>AdminApp\<close> sees it. \<open>buttons\<close> gives the \<^verbatim>\<open>disabled\<close> property of
  the button with an id and \<open>badges\<close> the badge with an id (\<open>None\<close>: the page has no
  such element). \<open>fragments\<close> are the children of \<^verbatim>\<open>#additional-cameras\<close>; the markup
  is not part of the repository, and the model takes these fragments to be the
  container's only children, the page's only elements with a \<^verbatim>\<open>data-camera-id\<close>, and
  their inputs to be the only elements whose \<^verbatim>\<open>name\<close> is looked up by
  \<^verbatim>\<open>populateCameraFields\<close> and \<^verbatim>\<open>applyCameraInterval\<close>. \<open>form_inputs\<close> is
  \<^verbatim>\<open>form.querySelectorAll("input, select")\<close> on the configuration form.
  \<open>additional_cameras\<close> is the local-storage item of that name: the stored text is
  \<^verbatim>\<open>JSON.stringify(cameras)\<close>, which \<^verbatim>\<open>JSON.parse\<close> turns back into the same array
  of objects with string values, so the model stores the array (\<open>None\<close>: no item). An
  object is the list of its properties in insertion order.
\<close>

type_synonym descriptor = "(string \<times> string) list"

record admin_state =
  buttons :: "string \<Rightarrow> bool option"
  badges :: "string \<Rightarrow> badge option"
  fragments :: "fragment list"
  form_inputs :: "field list"
  additional_cameras :: "descriptor list option"
  admin_trace :: "admin_event list"

definition aemit :: "admin_event \<Rightarrow> admin_state \<Rightarrow> admin_state" where
  "aemit e s = s\<lparr>admin_trace := admin_trace s @ [e]\<rparr>"

text \<open>
  \<^verbatim>\<open>addLog\<close> of \<^verbatim>\<open>AdminApp\<close>; as for the other controller the trace records the
  call, and \<^verbatim>\<open>shouldLog\<close> decides what reaches the console.
\<close>

definition adminLog :: "admin_msg \<Rightarrow> log_type \<Rightarrow> admin_state \<Rightarrow> admin_state" where
  "adminLog message type s = aemit (ALog type message) s"

fun admin_console_lines ::
  "log_type \<Rightarrow> admin_event list \<Rightarrow> (log_type \<times> admin_msg) list" where
  "admin_console_lines lvl [] = []"
| "admin_console_lines lvl (ALog t m # es) =
     (if shouldLog lvl t then (t, m) # admin_console_lines lvl es
      else admin_console_lines lvl es)"
| "admin_console_lines lvl (AConsole t m # es) = (t, m) # admin_console_lines lvl es"
| "admin_console_lines lvl (e # es) = admin_console_lines lvl es"

text \<open>\<^verbatim>\<open>if (btn) btn.disabled = v\<close>\<close>

definition set_disabled :: "string \<Rightarrow> bool \<Rightarrow> admin_state \<Rightarrow> admin_state" where
  "set_disabled btn v s =
     (case buttons s btn of
        None \<Rightarrow> s
      | Some _ \<Rightarrow> s\<lparr>buttons := (buttons s)(btn \<mapsto> v)\<rparr>)"

definition badge_map :: "string \<Rightarrow> string option" where
  "badge_map state =
     (if state = ''loading'' then Some ''bg-warning''
      else if state = ''ok'' then Some ''bg-success''
      else if state = ''error'' then Some ''bg-danger''
      else if state = ''info'' then Some ''bg-info''
      else if state = ''idle'' then Some ''bg-secondary''
      else None)"

definition setBadge :: "string \<Rightarrow> string \<Rightarrow> string \<Rightarrow> string \<Rightarrow> admin_state \<Rightarrow> admin_state" where
  "setBadge badgeId state text title s =
     (case badges s badgeId of
        None \<Rightarrow> s
      | Some el \<Rightarrow>
          s\<lparr>badges := (badges s)(badgeId \<mapsto>
               el\<lparr>b_class := or_else (badge_map state) ''bg-secondary'',
                  b_text := text,
                  b_title := (if title \<noteq> [] then title else b_title el)\<rparr>)\<rparr>)"

text \<open>
  A badge is settled when it does not carry the class that \<^verbatim>\<open>setBadge\<close> gives the
  \<^verbatim>\<open>loading\<close> state.
\<close>

definition badge_settled :: "admin_state \<Rightarrow> string \<Rightarrow> bool" where
  "badge_settled s badgeId = (\<forall>b. badges s badgeId = Some b \<longrightarrow> b_class b \<noteq> ''bg-warning'')"

subsection \<open>Waiting for the server after a restart\<close>

text \<open>
  Time is counted in milliseconds from the moment \<^verbatim>\<open>waitForServerBack\<close> reads
  \<^verbatim>\<open>Date.now()\<close> into \<^verbatim>\<open>start\<close>. The server is a function of the time at which a
  request is sent: what it answers, and how long after the request the awaited
  \<^verbatim>\<open>fetch\<close> settles in the page.

  A timer does not fire before its delay has passed, and may fire later: the callback
  of \<^verbatim>\<open>setTimeout(f, d)\<close> runs \<open>d\<close> milliseconds after the call or at any later
  moment. \<open>abort_late t\<close> is how much later than its 2000 ms the abort timer of the
  attempt that starts at time \<open>t\<close> fires, \<open>pause_late t\<close> how much later than its
  1000 ms the pause that starts at time \<open>t\<close> ends.
\<close>

datatype probe_result = POk | PNotOk | PThrows

record probe =
  p_result :: probe_result
  p_latency :: nat

record environment =
  env_server :: "nat \<Rightarrow> probe"
  abort_late :: "nat \<Rightarrow> nat"
  pause_late :: "nat \<Rightarrow> nat"

text \<open>
  \<^verbatim>\<open>fetchWithTimeout\<close>, whose abort timer fires \<open>late\<close> milliseconds after the
  timeout: the answer and the time the awaited call took. An answer that has not
  arrived when the abort timer fires is lost and the call throws.
\<close>

definition fetchWithTimeout :: "nat \<Rightarrow> nat \<Rightarrow> probe \<Rightarrow> probe_result \<times> nat" where
  "fetchWithTimeout timeout late p =
     (if p_latency p < timeout + late then (p_result p, p_latency p)
      else (PThrows, timeout + late))"

text \<open>
  The loop of \<^verbatim>\<open>waitForServerBack\<close>, entered when \<open>elapsed\<close> milliseconds have
  passed: \<^verbatim>\<open>(Date.now() - start) / 1000 < maxSeconds\<close> is tested, the attempt is made,
  and after an attempt that was not answered \<^verbatim>\<open>ok\<close> the pause is awaited.
\<close>

function wait_loop ::
  "nat \<Rightarrow> environment \<Rightarrow> nat \<Rightarrow> admin_state \<Rightarrow> bool \<times> admin_state" where
  "wait_loop maxSeconds env elapsed s =
     (if elapsed < maxSeconds * 1000 then
        (let s1 = aemit (AFetch GET ''/api/metrics'' (Some 2000) NoBody) s;
             res = fetchWithTimeout 2000 (abort_late env elapsed) (env_server env elapsed);
             settled = elapsed + snd res
         in if fst res = POk then (True, s1)
            else wait_loop maxSeconds env (settled + 1000 + pause_late env settled) s1)
      else (False, s))"
  by pat_completeness auto
termination
  by (relation "measure (\<lambda>(maxSeconds, env, elapsed, s). maxSeconds * 1000 - elapsed)") auto

declare wait_loop.simps [simp del]

definition waitForServerBack ::
  "nat \<Rightarrow> environment \<Rightarrow> admin_state \<Rightarrow> bool \<times> admin_state" where
  "waitForServerBack maxSeconds env s = wait_loop maxSeconds env 0 s"

text \<open>
  The request of one polling attempt, and whether the attempt that starts at time
  \<open>t\<close> is answered \<^verbatim>\<open>ok\<close> before its abort timer fires.
\<close>

definition metrics_probe :: admin_event where
  "metrics_probe = AFetch GET ''/api/metrics'' (Some 2000) NoBody"

definition answered_ok :: "environment \<Rightarrow> nat \<Rightarrow> bool" where
  "answered_ok env t
     = (fst (fetchWithTimeout 2000 (abort_late env t) (env_server env t)) = POk)"

text \<open>
  \<^verbatim>\<open>restartApplication\<close>. \<open>confirmed\<close> is the answer to the confirmation dialog;
  \<open>reply\<close> is the outcome of \<^verbatim>\<open>POST /api/admin/restart\<close>, a response carrying its
  status code.
\<close>

definition restartApplication ::
  "bool \<Rightarrow> nat fetched \<Rightarrow> environment \<Rightarrow> admin_state \<Rightarrow> admin_state" where
  "restartApplication confirmed reply env s =
     (if \<not> confirmed then s
      else
        (let s1 = set_disabled ''restart-app'' True (adminLog RestartStarting LInfo s);
             s2 = aemit (AFetch POST ''/api/admin/restart'' None NoBody) s1;
             s3 = (case reply of
                     Throws m \<Rightarrow>
                       aemit (AConsole LError (RestartError m))
                         (adminLog (RestartError m) LError s2)
                   | Response ok status \<Rightarrow>
                       if ok then
                         (let s4 = adminLog WaitingForServer LInfo
                                     (adminLog RestartInitiated LSuccess s2);
                              (back, s5) = waitForServerBack 60 env s4
                          in if back
                             then aemit Reload (adminLog ServerBackReloading LSuccess s5)
                             else adminLog CannotConfirmRestart LWarning s5)
                       else
                         aemit (AConsole LError (RestartError (''Erreur HTTP: '' @ show_nat status)))
                           (adminLog (RestartError (''Erreur HTTP: '' @ show_nat status))
                              LError s2))
         in set_disabled ''restart-app'' False s3))"

subsection \<open>Camera form fragments\<close>

definition cam_field :: "string \<Rightarrow> string \<Rightarrow> string \<Rightarrow> string \<Rightarrow> string \<Rightarrow> bool \<Rightarrow> field" where
  "cam_field name type val mn mx vis =
     \<lparr>f_name = name, f_type = type, f_value = val, f_min = mn, f_max = mx,
      f_visible = vis, f_is_invalid = False, f_is_valid = False\<rparr>"

text \<open>
  The markup that \<^verbatim>\<open>addCameraConfig\<close> writes into a new fragment: three identity
  fields, the RTSP group, and the Home-Assistant group, which starts hidden. Each
  group has an input named \<^verbatim>\<open>${cameraId}_analysis_interval\<close>.
\<close>

definition new_fragment :: "string \<Rightarrow> nat \<Rightarrow> fragment" where
  "new_fragment cameraId n =
     \<lparr>data_camera_id = cameraId,
      inputs =
        [cam_field (cameraId @ ''_name'') ''text'' (Camera_word @ '' '' @ show_nat n) [] [] True,
         cam_field (cameraId @ ''_mode'') ''select-one'' ''rtsp'' [] [] True,
         cam_field (cameraId @ ''_id'') ''text'' cameraId [] [] True,
         cam_field (cameraId @ ''_rtsp_url'') ''url'' [] [] [] True,
         cam_field (cameraId @ ''_rtsp_username'') ''text'' [] [] [] True,
         cam_field (cameraId @ ''_rtsp_password'') ''password'' [] [] [] True,
         cam_field (cameraId @ ''_analysis_interval'') ''number'' ''2.0'' ''0.1'' ''60'' True,
         cam_field (cameraId @ ''_ha_entity'') ''text'' [] [] [] False,
         cam_field (cameraId @ ''_ha_attr'') ''text'' ''entity_picture'' [] [] False,
         cam_field (cameraId @ ''_ha_interval'') ''number'' ''1.0'' ''0.5'' [] False,
         cam_field (cameraId @ ''_analysis_interval'') ''number'' ''2.0'' ''0.1'' ''60'' False]\<rparr>"

definition next_camera_id :: "admin_state \<Rightarrow> string" where
  "next_camera_id s = ''camera_'' @ show_nat (length (fragments s) + 1)"

definition addCameraConfig :: "admin_state \<Rightarrow> admin_state" where
  "addCameraConfig s =
     (let cameraCount = length (fragments s);
          cameraId = ''camera_'' @ show_nat (cameraCount + 1)
      in if \<exists>f \<in> set (fragments s). data_camera_id f = cameraId
         then aemit (AConsole LWarning (CameraExists cameraId)) s
         else adminLog (CameraAdded cameraId) LSuccess
                (s\<lparr>fragments := fragments s @ [new_fragment cameraId (cameraCount + 1)]\<rparr>))"

text \<open>\<^verbatim>\<open>obj[key] = value\<close> on an object kept as its property list.\<close>

fun obj_set :: "(string \<times> 'v) list \<Rightarrow> string \<Rightarrow> 'v \<Rightarrow> (string \<times> 'v) list" where
  "obj_set [] k v = [(k, v)]"
| "obj_set ((k', v') # r) k v = (if k' = k then (k, v) # r else (k', v') # obj_set r k v)"

definition descriptor_of :: "fragment \<Rightarrow> descriptor" where
  "descriptor_of cameraDiv =
     foldl (\<lambda>camera input.
              if f_name input \<noteq> [] \<and> f_value input \<noteq> []
              then obj_set camera (f_name input) (f_value input) else camera)
       [(''id'', data_camera_id cameraDiv)] (inputs cameraDiv)"

definition saveCamerasConfiguration :: "admin_state \<Rightarrow> descriptor list \<times> admin_state" where
  "saveCamerasConfiguration s =
     (let cameras = map descriptor_of (fragments s)
      in (cameras, s\<lparr>additional_cameras := Some cameras\<rparr>))"

fun remove_first_id :: "string \<Rightarrow> fragment list \<Rightarrow> fragment list" where
  "remove_first_id cameraId [] = []"
| "remove_first_id cameraId (f # fs) =
     (if data_camera_id f = cameraId then fs else f # remove_first_id cameraId fs)"

definition removeCameraConfig :: "string \<Rightarrow> admin_state \<Rightarrow> admin_state" where
  "removeCameraConfig cameraId s =
     (if \<exists>f \<in> set (fragments s). data_camera_id f = cameraId
      then snd (saveCamerasConfiguration
                  (adminLog (CameraRemoved cameraId) LInfo
                     (s\<lparr>fragments := remove_first_id cameraId (fragments s)\<rparr>)))
      else s)"

definition clearExistingCameras :: "admin_state \<Rightarrow> admin_state" where
  "clearExistingCameras s = s\<lparr>fragments := []\<rparr>"

definition clearCamerasStorage :: "admin_state \<Rightarrow> admin_state" where
  "clearCamerasStorage s = adminLog CamerasReset LInfo (s\<lparr>additional_cameras := None\<rparr>)"

text \<open>
  \<^verbatim>\<open>document.querySelector(`[name="${key}"]`)\<close>: the first element of the document
  with that name. \<open>set_first_named\<close> assigns its value inside one fragment,
  \<open>set_in_document\<close> finds the fragment.
\<close>

fun set_first_named :: "string \<Rightarrow> string \<Rightarrow> field list \<Rightarrow> field list" where
  "set_first_named key v [] = []"
| "set_first_named key v (i # is) =
     (if f_name i = key then i\<lparr>f_value := v\<rparr> # is else i # set_first_named key v is)"

fun set_in_document :: "string \<Rightarrow> string \<Rightarrow> fragment list \<Rightarrow> fragment list" where
  "set_in_document key v [] = []"
| "set_in_document key v (f # fs) =
     (if key \<in> f_name ` set (inputs f)
      then f\<lparr>inputs := set_first_named key v (inputs f)\<rparr> # fs
      else f # set_in_document key v fs)"

definition populateCameraFields :: "descriptor \<Rightarrow> admin_state \<Rightarrow> admin_state" where
  "populateCameraFields camera s =
     s\<lparr>fragments := foldl (\<lambda>frs (key, v). set_in_document key v frs) (fragments s) camera\<rparr>"

definition loadCamerasConfiguration :: "admin_state \<Rightarrow> admin_state" where
  "loadCamerasConfiguration s0 =
     (let s = clearExistingCameras s0
      in case additional_cameras s of
           None \<Rightarrow> s
         | Some cameras \<Rightarrow>
             foldl (\<lambda>st camera. populateCameraFields camera (addCameraConfig st)) s cameras)"

text \<open>
  The states of the fragment container that the page can be in: it starts empty, the
  four operations above change it, and nothing else adds or removes a fragment or
  changes a \<^verbatim>\<open>data-camera-id\<close> (the last rule: typing into a field, saving, testing,
  logging).
\<close>

inductive reachable :: "admin_state \<Rightarrow> bool" where
  empty: "fragments s = [] \<Longrightarrow> reachable s"
| add: "reachable s \<Longrightarrow> reachable (addCameraConfig s)"
| remove: "reachable s \<Longrightarrow> reachable (removeCameraConfig cameraId s)"
| clear: "reachable s \<Longrightarrow> reachable (clearExistingCameras s)"
| load: "reachable s \<Longrightarrow> reachable (loadCamerasConfiguration s)"
| other: "reachable s \<Longrightarrow> map data_camera_id (fragments s') = map data_camera_id (fragments s)
           \<Longrightarrow> reachable s'"

subsection \<open>The round trip of camera descriptors\<close>


text \<open>
  \<open>canonical k f\<close>: the fragment is the \<open>k\<close>-th one as \<^verbatim>\<open>addCameraConfig\<close> creates it, up
  to the values of its inputs. \<open>numbered_from 1\<close>: the container holds
  \<^verbatim>\<open>camera_1\<close>, \<^verbatim>\<open>camera_2\<close>, ... in this order.
\<close>

definition cam_id :: "nat \<Rightarrow> string" where
  "cam_id k = ''camera_'' @ show_nat k"








text \<open>
  What a reload makes of a single fragment and of a list of fragments, and the effect
  of one iteration of the loader's loop on the list of fragments. \<open>numbered_names\<close>
  describes the fragments already rebuilt.
\<close>

definition populate_fragment :: "descriptor \<Rightarrow> fragment \<Rightarrow> fragment" where
  "populate_fragment camera g =
     g\<lparr>inputs := foldl (\<lambda>is (key, v). set_first_named key v is) (inputs g) camera\<rparr>"

definition reloaded :: "nat \<Rightarrow> fragment \<Rightarrow> fragment" where
  "reloaded k f = populate_fragment (descriptor_of f) (new_fragment (cam_id k) k)"




subsection \<open>Field validation and the per-camera interval\<close>




text \<open>
  \<^verbatim>\<open>validateField\<close> returns its verdict and leaves the field with its classes and,
  for a number, its normalised value. \<^verbatim>\<open>isValidUrl\<close> is \<^verbatim>\<open>new URL(string)\<close> not
  throwing; the URL parser belongs to the browser and is a parameter.
\<close>

definition validateField :: "(string \<Rightarrow> bool) \<Rightarrow> field \<Rightarrow> bool \<times> field" where
  "validateField isValidUrl field0 =
     (let field = field0\<lparr>f_is_invalid := False, f_is_valid := False\<rparr>
      in if \<not> f_visible field then (True, field)
         else if f_type field = ''url'' \<and> f_value field \<noteq> [] \<and> \<not> isValidUrl (f_value field)
         then (False, field\<lparr>f_is_invalid := True\<rparr>)
         else
           (let (ok, field1) =
                  (if f_type field = ''number'' \<and> f_value field \<noteq> [] then
                     (let raw = replace_first (CHR '','') (CHR ''.'') (trim (f_value field));
                          field1 = (if raw \<noteq> f_value field then field\<lparr>f_value := raw\<rparr>
                                    else field);
                          val = Number raw
                      in if val = None then (False, field1\<lparr>f_is_invalid := True\<rparr>)
                         else
                           (let hasMin = (f_min field1 \<noteq> []);
                                hasMax = (f_max field1 \<noteq> [])
                            in if (hasMin \<and> js_less val (Number (f_min field1)))
                                  \<or> (hasMax \<and> js_less (Number (f_max field1)) val)
                               then (False, field1\<lparr>f_is_invalid := True\<rparr>)
                               else (True, field1)))
                   else (True, field))
            in if \<not> ok then (False, field1)
               else (True, if f_value field1 \<noteq> [] then field1\<lparr>f_is_valid := True\<rparr>
                           else field1)))"




subsection \<open>Saving the configuration\<close>

definition config_has :: "(string \<times> string) list \<Rightarrow> string \<Rightarrow> bool" where
  "config_has config key = truthy (map_of config key)"

definition validateConfiguration ::
  "(string \<Rightarrow> bool) \<Rightarrow> (string \<times> string) list \<Rightarrow> admin_state \<Rightarrow> bool \<times> admin_state" where
  "validateConfiguration isValidUrl config s =
     (let checked = map (validateField isValidUrl) (form_inputs s);
          isValid = list_all fst checked;
          s1 = s\<lparr>form_inputs := map snd checked\<rparr>;
          s2 = (if map_of config ''AI_API_MODE'' = Some ''openai''
                   \<and> \<not> config_has config ''OPENAI_API_KEY''
                then adminLog OpenAiKeyRequired LWarning s1 else s1);
          ollama = (map_of config ''AI_API_MODE'' = Some ''ollama'');
          s3 = (if ollama \<and> \<not> config_has config ''OLLAMA_MODEL''
                then adminLog OllamaModelRequired LWarning s2 else s2);
          badUrl = (ollama \<and> config_has config ''OLLAMA_URL''
                    \<and> \<not> isValidUrl (the (map_of config ''OLLAMA_URL'')));
          s4 = (if badUrl then adminLog OllamaUrlInvalid LWarning s3 else s3);
          s5 = (if \<not> config_has config ''MQTT_BROKER''
                then adminLog MqttBrokerRequired LWarning s4 else s4)
      in (isValid \<and> \<not> badUrl, s5))"

text \<open>
  \<^verbatim>\<open>saveConfiguration\<close> up to its first \<^verbatim>\<open>await\<close>. \<open>formData\<close> are the entries of
  \<^verbatim>\<open>new FormData(form)\<close> and \<open>stringify\<close> is \<^verbatim>\<open>JSON.stringify\<close> on an array of
  descriptors. The result says whether the request was sent.
\<close>

definition build_config ::
  "(string \<times> string) list \<Rightarrow> (descriptor list \<Rightarrow> string) \<Rightarrow> descriptor list
     \<Rightarrow> (string \<times> string) list" where
  "build_config formData stringify additionalCameras =
     (let config = foldl (\<lambda>c (key, v). obj_set c key v) [] formData
      in if length additionalCameras > 0
         then obj_set config ''ADDITIONAL_CAMERAS'' (stringify additionalCameras)
         else config)"

definition saveConfiguration_send ::
  "(string \<times> string) list \<Rightarrow> (string \<Rightarrow> bool) \<Rightarrow> (descriptor list \<Rightarrow> string)
     \<Rightarrow> admin_state \<Rightarrow> bool \<times> admin_state" where
  "saveConfiguration_send formData isValidUrl stringify s =
     (let s1 = adminLog SavingConfig LInfo s;
          (additionalCameras, s2) = saveCamerasConfiguration s1;
          config = build_config formData stringify additionalCameras;
          (valid, s3) = validateConfiguration isValidUrl config s2
      in if \<not> valid then (False, adminLog ConfigInvalid LError s3)
         else (True, aemit (AFetch POST ''/api/admin/config'' None (ConfigBody config)) s3))"

record config_result =
  cr_success :: bool
  cr_error :: "string option"

text \<open>
  The rest of \<^verbatim>\<open>saveConfiguration\<close>: \<open>reply\<close> is the outcome of the request (with
  the status code for the message of a response that is not ok) and \<open>hotReload\<close> the
  effect and result of the awaited \<^verbatim>\<open>this.hotReload()\<close>.
\<close>

definition saveConfiguration ::
  "(string \<times> string) list \<Rightarrow> (string \<Rightarrow> bool) \<Rightarrow> (descriptor list \<Rightarrow> string)
     \<Rightarrow> (nat \<times> config_result) fetched \<Rightarrow> (admin_state \<Rightarrow> bool \<times> admin_state)
     \<Rightarrow> admin_state \<Rightarrow> admin_state" where
  "saveConfiguration formData isValidUrl stringify reply hotReload s =
     (let (sent, s1) = saveConfiguration_send formData isValidUrl stringify s
      in if \<not> sent then s1
         else
           (case reply of
              Throws m \<Rightarrow>
                aemit (AConsole LError (ConfigSaveError m))
                  (adminLog (ConfigSaveError m) LError s1)
            | Response ok (status, result) \<Rightarrow>
                if \<not> ok then
                  aemit (AConsole LError (ConfigSaveError (''Erreur HTTP: '' @ show_nat status)))
                    (adminLog (ConfigSaveError (''Erreur HTTP: '' @ show_nat status)) LError s1)
                else if cr_success result then
                  (let (applied, s2) = hotReload (adminLog ConfigSaved LSuccess s1)
                   in if \<not> applied then adminLog PartiallyApplied LWarning s2 else s2)
                else adminLog (ConfigError (interp (cr_error result))) LError s1))"

subsection \<open>Connectivity tests\<close>

record ai_data =
  ai_success :: bool
  ai_api_mode :: "string option"
  ai_current_model :: "string option"
  ai_error :: "string option"

definition testAI :: "ai_data fetched \<Rightarrow> admin_state \<Rightarrow> admin_state" where
  "testAI reply s =
     (let s1 = set_disabled ''test-ai'' True (setBadge ''test-ai-status'' ''loading'' ''...'' [] s);
          s2 = aemit (AFetch GET ''/api/admin/ai_test'' (Some 5000) NoBody)
                 (adminLog AiTestStart LInfo s1);
          s3 = (case reply of
                  Throws m \<Rightarrow>
                    adminLog (AiKo m) LError (setBadge ''test-ai-status'' ''error'' ''KO'' m s2)
                | Response ok data \<Rightarrow>
                    aemit (AConsole LDebug DebugData)
                      (if ai_success data then
                         adminLog (AiOk (interp (ai_api_mode data)) (interp (ai_current_model data)))
                           LSuccess
                           (setBadge ''test-ai-status'' ''ok'' ''OK''
                              (interp (ai_api_mode data) @ bullet @ interp (ai_current_model data))
                              s2)
                       else
                         adminLog (AiKo (or_else (ai_error data) ''Erreur inconnue'')) LError
                           (setBadge ''test-ai-status'' ''error'' ''KO''
                              (or_else (ai_error data) ''Erreur inconnue'') s2)))
      in set_disabled ''test-ai'' False s3)"

record mqtt_status =
  mq_connected :: bool
  mq_broker :: "string option"
  mq_port :: "string option"
  mq_topic_prefix :: "string option"

record mqtt_data =
  mqtt_success :: bool
  mqtt_state :: "mqtt_status option"
  mqtt_error :: "string option"

definition testMQTT :: "mqtt_data fetched \<Rightarrow> admin_state \<Rightarrow> admin_state" where
  "testMQTT reply s =
     (let s1 = set_disabled ''test-mqtt'' True
                 (setBadge ''test-mqtt-status'' ''loading'' ''...'' [] s);
          s2 = aemit (AFetch GET ''/api/admin/mqtt_test'' (Some 5000) NoBody)
                 (adminLog MqttTestStart LInfo s1);
          s3 = (case reply of
                  Throws m \<Rightarrow>
                    adminLog (MqttKo m) LError (setBadge ''test-mqtt-status'' ''error'' ''KO'' m s2)
                | Response ok data \<Rightarrow>
                    (case (if mqtt_success data then mqtt_state data else None) of
                       Some st \<Rightarrow>
                         aemit (AConsole LDebug DebugData)
                           (let target = interp (mq_broker st) @ '':'' @ interp (mq_port st)
                            in if mq_connected st then
                                 adminLog (MqttOk (interp (mq_broker st)) (interp (mq_port st))
                                             (or_else (mq_topic_prefix st) ''iaction''))
                                   LSuccess
                                   (setBadge ''test-mqtt-status'' ''ok'' ''OK'' target s2)
                               else
                                 adminLog (MqttNotConnected (interp (mq_broker st))
                                             (interp (mq_port st))) LError
                                   (setBadge ''test-mqtt-status'' ''error'' ''KO'' target s2))
                     | None \<Rightarrow>
                         adminLog (MqttKo (or_else (mqtt_error data) ''Erreur inconnue'')) LError
                           (setBadge ''test-mqtt-status'' ''error'' ''KO''
                              (or_else (mqtt_error data) ''Erreur inconnue'') s2)))
      in set_disabled ''test-mqtt'' False s3)"

record rtsp_data =
  rtsp_success :: bool
  rtsp_status :: "string option"
  rtsp_tested_url :: "string option"
  rtsp_error :: "string option"

text \<open>\<open>urlField\<close> is the value of \<^verbatim>\<open>#default_rtsp_url\<close>, if the page has the field.\<close>

definition testRTSP :: "string option \<Rightarrow> rtsp_data fetched \<Rightarrow> admin_state \<Rightarrow> admin_state" where
  "testRTSP urlField reply s =
     (let s1 = set_disabled ''test-rtsp'' True
                 (setBadge ''test-rtsp-status'' ''loading'' ''...'' [] s);
          s2 = aemit (AFetch POST ''/api/admin/rtsp_test'' (Some 7000)
                        (RtspTestBody (if truthy urlField then urlField else None)))
                 (adminLog RtspTestStart LInfo s1);
          s3 = (case reply of
                  Throws m \<Rightarrow>
                    adminLog (RtspKo m) LError (setBadge ''test-rtsp-status'' ''error'' ''KO'' m s2)
                | Response ok data \<Rightarrow>
                    aemit (AConsole LDebug DebugData)
                      (if rtsp_success data then
                         (let status = toLowerCase (or_else (rtsp_status data) []);
                              url = or_else (rtsp_tested_url data) []
                          in adminLog (RtspStatus (or_else (rtsp_tested_url data) ''-'')
                                         (interp (rtsp_status data)))
                               (if status = ''online'' then LSuccess
                                else if status = ''not_configured'' then LWarning else LError)
                               (if status = ''online''
                                then setBadge ''test-rtsp-status'' ''ok'' ''ONLINE'' url s2
                                else if status = ''not_configured''
                                then setBadge ''test-rtsp-status'' ''info'' ''N/C''
                                       (''URL non configur'' @ [CHR 0xC3, CHR 0xA9] @ ''e'') s2
                                else if status = ''offline''
                                then setBadge ''test-rtsp-status'' ''error'' ''OFFLINE'' url s2
                                else setBadge ''test-rtsp-status'' ''error'' ''ERROR'' url s2))
                       else
                         adminLog (RtspKo (or_else (rtsp_error data) ''Erreur inconnue'')) LError
                           (setBadge ''test-rtsp-status'' ''error'' ''KO''
                              (or_else (rtsp_error data) ''Erreur inconnue'') s2)))
      in set_disabled ''test-rtsp'' False s3)"

record camera_test_result =
  ctr_camera_id :: "string option"
  ctr_camera_name :: "string option"
  ctr_success :: bool
  ctr_message :: "string option"

record cameras_data =
  cams_success :: bool
  cams_results :: "camera_test_result list option"
  cams_error :: "string option"

definition camera_to_test :: "descriptor \<Rightarrow> camera_config" where
  "camera_to_test camera =
     (let cid = interp (map_of camera ''id'');
          cameraId = or_else (map_of camera (cid @ ''_id'')) cid;
          mode = or_else (map_of camera (cid @ ''_mode'')) ''rtsp'';
          name = or_else (map_of camera (cid @ ''_name'')) (Camera_word @ '' '' @ cameraId);
          rtsp = (mode = ''rtsp'');
          ha = (mode = ''ha_polling'')
      in \<lparr>cc_id = cameraId, cc_name = name, cc_mode = mode,
          cc_rtsp_url = (if rtsp then map_of camera (cid @ ''_rtsp_url'') else None),
          cc_rtsp_username = (if rtsp then map_of camera (cid @ ''_rtsp_username'') else None),
          cc_rtsp_password = (if rtsp then map_of camera (cid @ ''_rtsp_password'') else None),
          cc_ha_entity = (if ha then map_of camera (cid @ ''_ha_entity'') else None),
          cc_ha_attr = (if ha then map_of camera (cid @ ''_ha_attr'') else None),
          cc_ha_interval = (if ha then map_of camera (cid @ ''_ha_interval'') else None)\<rparr>)"

definition results_undefined :: string where
  "results_undefined = ''Cannot read properties of undefined (reading filter)''"

definition testCameras :: "cameras_data fetched \<Rightarrow> admin_state \<Rightarrow> admin_state" where
  "testCameras reply s =
     (let s1 = set_disabled ''test-cameras'' True
                 (setBadge ''test-cameras-status'' ''loading'' ''...'' [] s);
          (cameras, s2) = saveCamerasConfiguration (adminLog CamerasTestStart LInfo s1);
          s3 = (if length cameras = 0 then
                  adminLog NoAdditionalCamera LWarning
                    (setBadge ''test-cameras-status'' ''info'' ''N/C''
                       (''Aucune cam'' @ [CHR 0xC3, CHR 0xA9] @ ''ra configur''
                          @ [CHR 0xC3, CHR 0xA9] @ ''e'') s2)
                else
                  (let camerasToTest = map camera_to_test cameras;
                       s4 = aemit (AFetch POST ''/api/admin/cameras/test_multiple'' (Some 10000)
                                     (CamerasBody camerasToTest))
                              (adminLog (TestingCameras (length camerasToTest)) LInfo s2);
                       failed = (\<lambda>m. adminLog (CamerasTestError m) LError
                                        (setBadge ''test-cameras-status'' ''error'' ''KO'' m s4))
                   in case reply of
                        Throws m \<Rightarrow> failed m
                      | Response ok data \<Rightarrow>
                          if cams_success data then
                            (case cams_results data of
                               None \<Rightarrow> failed results_undefined
                             | Some results \<Rightarrow>
                                 (let successCount = length (filter ctr_success results);
                                      totalCount = length results;
                                      ratio = show_nat successCount @ ''/'' @ show_nat totalCount;
                                      s5 = (if successCount = totalCount then
                                              adminLog (CamerasAllOk successCount totalCount)
                                                LSuccess
                                                (setBadge ''test-cameras-status'' ''ok'' ratio
                                                   (''Toutes les cam'' @ [CHR 0xC3, CHR 0xA9]
                                                      @ ''ras connect'' @ [CHR 0xC3, CHR 0xA9]
                                                      @ ''es'') s4)
                                            else
                                              adminLog (CamerasPartial successCount totalCount)
                                                LWarning
                                                (setBadge ''test-cameras-status'' ''warning'' ratio
                                                   ''Test partiel'' s4))
                                  in foldl (\<lambda>st result.
                                              adminLog
                                                (CameraResult (ctr_success result)
                                                   (if truthy (ctr_camera_name result)
                                                    then the (ctr_camera_name result)
                                                    else interp (ctr_camera_id result))
                                                   (interp (ctr_message result)))
                                                (if ctr_success result then LSuccess else LError)
                                                st)
                                       s5 results))
                          else
                            adminLog (CamerasTestError (interp (cams_error data))) LError
                              (setBadge ''test-cameras-status'' ''error'' ''KO''
                                 (or_else (cams_error data) ''Erreur inconnue'') s4)))
      in set_disabled ''test-cameras'' False s3)"

section \<open>Concrete states for evaluation\<close>

text \<open>
  The controller as its constructor and \<^verbatim>\<open>setupEventListeners\<close> leave it, on a page
  that shows the "no capture" placeholder and has the detection modal open, and the
  same controller while a capture runs and its stream is shown.
\<close>

definition app_idle :: app_state where
  "app_idle =
     \<lparr>isCapturing = False, captureInProgress = False, isVideoStreamVisible = False,
      videoUpdateInterval = None, editDetectionId = None, detections = [],
      start_capture_disabled = False, stop_capture_disabled = True,
      start_capture_content_d_none = False, start_capture_loading_d_none = True,
      toggle_video_stream_display = ''none'', no_capture_display = ''block'',
      capture_ready_display = ''none'', video_stream_display = ''none'',
      video_stream_src = [], toggle_video_text = Some ''Voir le flux live'',
      toggle_icon_className = ''bi bi-eye'', detections_list = [], modal_shown = True,
      app_trace = []\<rparr>"

definition app_streaming :: app_state where
  "app_streaming =
     app_idle\<lparr>isCapturing := True, captureInProgress := True, isVideoStreamVisible := True,
       start_capture_disabled := True, stop_capture_disabled := False,
       toggle_video_stream_display := ''block'', no_capture_display := ''none'',
       video_stream_display := ''block'', video_stream_src := ''/video_feed?1700000000000'',
       toggle_video_text := Some ''Masquer le flux'',
       toggle_icon_className := ''bi bi-eye-slash''\<rparr>"

text \<open>The administration page before any camera is added.\<close>

definition idle_badge :: badge where
  "idle_badge = \<lparr>b_class = ''bg-secondary'', b_text = ''-'', b_title = []\<rparr>"

definition admin_page :: admin_state where
  "admin_page =
     \<lparr>buttons = [''restart-app'' \<mapsto> False, ''test-ai'' \<mapsto> False, ''test-mqtt'' \<mapsto> False,
                 ''test-rtsp'' \<mapsto> False, ''test-cameras'' \<mapsto> False],
      badges = [''test-ai-status'' \<mapsto> idle_badge, ''test-mqtt-status'' \<mapsto> idle_badge,
                ''test-rtsp-status'' \<mapsto> idle_badge, ''test-cameras-status'' \<mapsto> idle_badge],
      fragments = [], form_inputs = [], additional_cameras = None, admin_trace = []\<rparr>"

text \<open>
  A server that answers not-ok, after \<open>latency\<close> milliseconds, to every request sent
  before time \<open>T\<close>, and ok at once to every request sent from \<open>T\<close> on; and that
  server in a page whose timers all fire \<open>late\<close> milliseconds after their delay.
\<close>

definition server_ok_from :: "nat \<Rightarrow> nat \<Rightarrow> nat \<Rightarrow> probe" where
  "server_ok_from T latency t =
     (if t < T then \<lparr>p_result = PNotOk, p_latency = latency\<rparr>
      else \<lparr>p_result = POk, p_latency = 0\<rparr>)"

definition ok_from :: "nat \<Rightarrow> nat \<Rightarrow> nat \<Rightarrow> environment" where
  "ok_from T latency late =
     \<lparr>env_server = server_ok_from T latency,
      abort_late = (\<lambda>t. late), pause_late = (\<lambda>t. late)\<rparr>"


text \<open>Three cameras added, then the first one removed.\<close>

definition two_of_three :: admin_state where
  "two_of_three =
     removeCameraConfig ''camera_1''
       (addCameraConfig (addCameraConfig (addCameraConfig admin_page)))"

text \<open>
  \<^verbatim>\<open>JSON.stringify\<close> on an array of objects with string values, for strings of
  ASCII characters.
\<close>

definition hex_char :: "nat \<Rightarrow> char" where
  "hex_char n = (if n < 10 then char_of (48 + n) else char_of (87 + n))"

definition json_char :: "char \<Rightarrow> string" where
  "json_char c =
     (let n = (of_char c :: nat)
      in if c = CHR 0x22 then [CHR 0x5C, CHR 0x22]
         else if c = CHR 0x5C then [CHR 0x5C, CHR 0x5C]
         else if c = CHR 0x08 then [CHR 0x5C, CHR ''b'']
         else if c = CHR 0x0C then [CHR 0x5C, CHR ''f'']
         else if c = CHR 0x0A then [CHR 0x5C, CHR ''n'']
         else if c = CHR 0x0D then [CHR 0x5C, CHR ''r'']
         else if c = CHR 0x09 then [CHR 0x5C, CHR ''t'']
         else if n < 32 then [CHR 0x5C, CHR ''u'', CHR ''0'', CHR ''0'',
                              hex_char (n div 16), hex_char (n mod 16)]
         else [c])"

definition json_string :: "string \<Rightarrow> string" where
  "json_string s = [CHR 0x22] @ concat (map json_char s) @ [CHR 0x22]"

fun commas :: "string list \<Rightarrow> string" where
  "commas [] = []"
| "commas [x] = x"
| "commas (x # y # r) = x @ '','' @ commas (y # r)"

definition json_stringify :: "descriptor list \<Rightarrow> string" where
  "json_stringify cameras =
     ''['' @ commas (map (\<lambda>camera.
                            ''{'' @ commas (map (\<lambda>(k, v). json_string k @ '':'' @ json_string v)
                                              camera) @ ''}'')
                        cameras) @ '']''"

definition accept_url :: "string \<Rightarrow> bool" where
  "accept_url u = starts_with u ''http''"

definition mqtt_form :: "(string \<times> string) list" where
  "mqtt_form = [(''AI_API_MODE'', ''lmstudio''), (''MQTT_BROKER'', ''192.168.1.10'')]"




text \<open>Replies used to evaluate the capture controls and the connectivity tests.\<close>

definition ha_config :: server_config where
  "ha_config = \<lparr>capture_mode = Some ''ha_polling'', rtsp_url = None\<rparr>"

definition started :: start_result where
  "started = \<lparr>sr_message = Some ''ok'', sr_camera = None, sr_error = None\<rparr>"

definition ai_down :: ai_data where
  "ai_down = \<lparr>ai_success = False, ai_api_mode = None, ai_current_model = None,
               ai_error = Some ''connection refused''\<rparr>"

text \<open>
  Responses to a save request: a body of HTML served as \<^verbatim>\<open>application/json\<close>, and a
  JSON body that reports a failure with an \<^verbatim>\<open>error\<close> message.
\<close>

definition json_html_response :: save_response where
  "json_html_response =
     \<lparr>resp_statusText = ''OK'', resp_content_type = Some ''application/json'',
      body_text = ''<html>saved</html>'', body_json = None\<rparr>"

definition json_error_response :: save_response where
  "json_error_response =
     \<lparr>resp_statusText = ''OK'', resp_content_type = Some ''application/json'',
      body_text = ''{success:false,error:duplicate}'', body_json = Some (Some ''duplicate'')\<rparr>"

definition one_detection :: "detection list" where
  "one_detection =
     [\<lparr>det_id = ''1'', det_name = ''Porte'', det_phrase = ''la porte est ouverte'',
       det_webhook_url = None\<rparr>]"




section \<open>Capture-status polling\<close>

lemma emit_fields [simp]:
  "isCapturing (emit e s) = isCapturing s"
  "captureInProgress (emit e s) = captureInProgress s"
  "start_capture_disabled (emit e s) = start_capture_disabled s"
  "stop_capture_disabled (emit e s) = stop_capture_disabled s"
  "start_capture_loading_d_none (emit e s) = start_capture_loading_d_none s"
  "toggle_video_stream_display (emit e s) = toggle_video_stream_display s"
  "no_capture_display (emit e s) = no_capture_display s"
  "video_stream_src (emit e s) = video_stream_src s"
  "video_stream_display (emit e s) = video_stream_display s"
  "modal_shown (emit e s) = modal_shown s"
  "editDetectionId (emit e s) = editDetectionId s"
  "detections (emit e s) = detections s"
  "detections_list (emit e s) = detections_list s"
  "app_trace (emit e s) = app_trace s @ [e]"
  by (simp_all add: emit_def)

lemma addLog_fields [simp]:
  "isCapturing (addLog m t s) = isCapturing s"
  "captureInProgress (addLog m t s) = captureInProgress s"
  "start_capture_disabled (addLog m t s) = start_capture_disabled s"
  "stop_capture_disabled (addLog m t s) = stop_capture_disabled s"
  "start_capture_loading_d_none (addLog m t s) = start_capture_loading_d_none s"
  "toggle_video_stream_display (addLog m t s) = toggle_video_stream_display s"
  "no_capture_display (addLog m t s) = no_capture_display s"
  "video_stream_src (addLog m t s) = video_stream_src s"
  "video_stream_display (addLog m t s) = video_stream_display s"
  "modal_shown (addLog m t s) = modal_shown s"
  "editDetectionId (addLog m t s) = editDetectionId s"
  "detections (addLog m t s) = detections s"
  "detections_list (addLog m t s) = detections_list s"
  "app_trace (addLog m t s) = app_trace s @ [AddLog t m]"
  by (simp_all add: addLog_def)

lemma updateCaptureControls_fields [simp]:
  "isCapturing (updateCaptureControls s) = isCapturing s"
  "captureInProgress (updateCaptureControls s) = captureInProgress s"
  "start_capture_disabled (updateCaptureControls s) = isCapturing s"
  "stop_capture_disabled (updateCaptureControls s) = (\<not> isCapturing s)"
  "start_capture_loading_d_none (updateCaptureControls s) = start_capture_loading_d_none s"
  "toggle_video_stream_display (updateCaptureControls s) = toggle_video_stream_display s"
  "no_capture_display (updateCaptureControls s) = no_capture_display s"
  "video_stream_src (updateCaptureControls s) = video_stream_src s"
  "video_stream_display (updateCaptureControls s) = video_stream_display s"
  "app_trace (updateCaptureControls s) = app_trace s"
  by (simp_all add: updateCaptureControls_def)

lemma showCaptureLoading_fields [simp]:
  "isCapturing (showCaptureLoading b s) = isCapturing s"
  "captureInProgress (showCaptureLoading b s) = captureInProgress s"
  "start_capture_disabled (showCaptureLoading b s) =
     (if b then True else isCapturing s \<and> start_capture_disabled s)"
  "stop_capture_disabled (showCaptureLoading b s) = stop_capture_disabled s"
  "start_capture_loading_d_none (showCaptureLoading b s) = (\<not> b)"
  "toggle_video_stream_display (showCaptureLoading b s) = toggle_video_stream_display s"
  "no_capture_display (showCaptureLoading b s) = no_capture_display s"
  "video_stream_src (showCaptureLoading b s) = video_stream_src s"
  "video_stream_display (showCaptureLoading b s) = video_stream_display s"
  "app_trace (showCaptureLoading b s) =
     app_trace s @ [Console LDebug (if b then SpinnerShown else SpinnerHidden (isCapturing s))]"
  by (simp_all add: showCaptureLoading_def Let_def emit_def)

lemma showToggleButton_fields [simp]:
  "isCapturing (showToggleButton s) = isCapturing s"
  "captureInProgress (showToggleButton s) = captureInProgress s"
  "start_capture_disabled (showToggleButton s) = start_capture_disabled s"
  "stop_capture_disabled (showToggleButton s) = stop_capture_disabled s"
  "start_capture_loading_d_none (showToggleButton s) = start_capture_loading_d_none s"
  "toggle_video_stream_display (showToggleButton s) = ''block''"
  "no_capture_display (showToggleButton s) = ''none''"
  "video_stream_src (showToggleButton s) = video_stream_src s"
  "video_stream_display (showToggleButton s) = video_stream_display s"
  "app_trace (showToggleButton s) = app_trace s @ [AddLog LInfo ToggleButtonAvailable]"
  by (simp_all add: showToggleButton_def addLog_def emit_def)

lemma hideToggleButton_fields [simp]:
  "isCapturing (hideToggleButton s) = isCapturing s"
  "captureInProgress (hideToggleButton s) = captureInProgress s"
  "start_capture_disabled (hideToggleButton s) = start_capture_disabled s"
  "stop_capture_disabled (hideToggleButton s) = stop_capture_disabled s"
  "start_capture_loading_d_none (hideToggleButton s) = start_capture_loading_d_none s"
  "toggle_video_stream_display (hideToggleButton s) = ''none''"
  "no_capture_display (hideToggleButton s) = ''block''"
  "video_stream_src (hideToggleButton s) = video_stream_src s"
  "video_stream_display (hideToggleButton s) = video_stream_display s"
  "app_trace (hideToggleButton s) = app_trace s"
  by (simp_all add: hideToggleButton_def)

lemma stopVideoStream_fields [simp]:
  "isCapturing (stopVideoStream s) = isCapturing s"
  "captureInProgress (stopVideoStream s) = captureInProgress s"
  "start_capture_disabled (stopVideoStream s) = start_capture_disabled s"
  "stop_capture_disabled (stopVideoStream s) = stop_capture_disabled s"
  "start_capture_loading_d_none (stopVideoStream s) = start_capture_loading_d_none s"
  "toggle_video_stream_display (stopVideoStream s) = toggle_video_stream_display s"
  "no_capture_display (stopVideoStream s) = no_capture_display s"
  "video_stream_src (stopVideoStream s) = []"
  "video_stream_display (stopVideoStream s) = ''none''"
  by (simp_all add: stopVideoStream_def Let_def emit_def split: option.splits)

lemma poll_sets_captureInProgress:
  "captureInProgress (checkCaptureStatusUpdate (StatusResponse True b) s) = b"
  by (simp add: checkCaptureStatusUpdate_def Let_def)

text \<open>
  C4. Two consecutive polls of \<^verbatim>\<open>/api/capture_status\<close>, both answered, reporting
  \<open>b1\<close> and then \<open>b2\<close>. On the edge false to true the second poll shows the toggle
  button and hides the "no capture" placeholder, and its whole effect on the outside is
  the status request and three log lines: no assignment to the video element's source
  (which keeps its value). On the edge true to false it clears the source, hides the
  video element and the toggle button. When the value is unchanged the second poll
  does nothing but issue its status request.
\<close>

theorem capture_status_edges:
  "(\<not> b1 \<and> b2 \<longrightarrow>
      toggle_video_stream_display
        (checkCaptureStatusUpdate (StatusResponse True b2)
          (checkCaptureStatusUpdate (StatusResponse True b1) s)) = ''block''
      \<and> no_capture_display
          (checkCaptureStatusUpdate (StatusResponse True b2)
            (checkCaptureStatusUpdate (StatusResponse True b1) s)) = ''none''
      \<and> video_stream_src
          (checkCaptureStatusUpdate (StatusResponse True b2)
            (checkCaptureStatusUpdate (StatusResponse True b1) s))
          = video_stream_src (checkCaptureStatusUpdate (StatusResponse True b1) s)
      \<and> app_trace
          (checkCaptureStatusUpdate (StatusResponse True b2)
            (checkCaptureStatusUpdate (StatusResponse True b1) s))
          = app_trace (checkCaptureStatusUpdate (StatusResponse True b1) s)
            @ [Fetch GET ''/api/capture_status'' [], AddLog LInfo ToggleButtonAvailable,
               Console LDebug (SpinnerHidden True), AddLog LSuccess CaptureDetectedUiUpdated])
   \<and> (b1 \<and> \<not> b2 \<longrightarrow>
        video_stream_src
          (checkCaptureStatusUpdate (StatusResponse True b2)
            (checkCaptureStatusUpdate (StatusResponse True b1) s)) = []
        \<and> video_stream_display
            (checkCaptureStatusUpdate (StatusResponse True b2)
              (checkCaptureStatusUpdate (StatusResponse True b1) s)) = ''none''
        \<and> toggle_video_stream_display
            (checkCaptureStatusUpdate (StatusResponse True b2)
              (checkCaptureStatusUpdate (StatusResponse True b1) s)) = ''none'')
   \<and> (b1 = b2 \<longrightarrow>
        checkCaptureStatusUpdate (StatusResponse True b2)
          (checkCaptureStatusUpdate (StatusResponse True b1) s)
        = emit (Fetch GET ''/api/capture_status'' [])
            (checkCaptureStatusUpdate (StatusResponse True b1) s))"
proof -
  define s1 where "s1 = checkCaptureStatusUpdate (StatusResponse True b1) s"
  have sync: "captureInProgress s1 = b1"
    unfolding s1_def by (rule poll_sets_captureInProgress)
  have rising: "toggle_video_stream_display (checkCaptureStatusUpdate (StatusResponse True b2) s1) = ''block''
      \<and> no_capture_display (checkCaptureStatusUpdate (StatusResponse True b2) s1) = ''none''
      \<and> video_stream_src (checkCaptureStatusUpdate (StatusResponse True b2) s1) = video_stream_src s1
      \<and> app_trace (checkCaptureStatusUpdate (StatusResponse True b2) s1)
          = app_trace s1
            @ [Fetch GET ''/api/capture_status'' [], AddLog LInfo ToggleButtonAvailable,
               Console LDebug (SpinnerHidden True), AddLog LSuccess CaptureDetectedUiUpdated]"
    if "\<not> b1" "b2"
    using that sync by (simp add: checkCaptureStatusUpdate_def Let_def)
  have falling: "video_stream_src (checkCaptureStatusUpdate (StatusResponse True b2) s1) = []
      \<and> video_stream_display (checkCaptureStatusUpdate (StatusResponse True b2) s1) = ''none''
      \<and> toggle_video_stream_display (checkCaptureStatusUpdate (StatusResponse True b2) s1) = ''none''"
    if "b1" "\<not> b2"
    using that sync by (simp add: checkCaptureStatusUpdate_def Let_def)
  have same: "checkCaptureStatusUpdate (StatusResponse True b2) s1
      = emit (Fetch GET ''/api/capture_status'' []) s1"
    if "b1 = b2"
    using that sync by (auto simp add: checkCaptureStatusUpdate_def Let_def)
  show ?thesis
    unfolding s1_def [symmetric] using rising falling same by blast
qed

theorem capture_status_edges_witness:
  "toggle_video_stream_display
     (checkCaptureStatusUpdate (StatusResponse True True)
       (checkCaptureStatusUpdate (StatusResponse True False) app_streaming)) = ''block''
   \<and> no_capture_display
       (checkCaptureStatusUpdate (StatusResponse True True)
         (checkCaptureStatusUpdate (StatusResponse True False) app_streaming)) = ''none''
   \<and> app_trace
       (checkCaptureStatusUpdate (StatusResponse True True)
         (checkCaptureStatusUpdate (StatusResponse True False) app_streaming))
       = app_trace (checkCaptureStatusUpdate (StatusResponse True False) app_streaming)
         @ [Fetch GET ''/api/capture_status'' [], AddLog LInfo ToggleButtonAvailable,
            Console LDebug (SpinnerHidden True), AddLog LSuccess CaptureDetectedUiUpdated]
   \<and> video_stream_src
       (checkCaptureStatusUpdate (StatusResponse True False)
         (checkCaptureStatusUpdate (StatusResponse True True) app_idle)) = []
   \<and> toggle_video_stream_display
       (checkCaptureStatusUpdate (StatusResponse True False)
         (checkCaptureStatusUpdate (StatusResponse True True) app_idle)) = ''none''
   \<and> checkCaptureStatusUpdate (StatusResponse True True)
       (checkCaptureStatusUpdate (StatusResponse True True) app_idle)
     = emit (Fetch GET ''/api/capture_status'' [])
         (checkCaptureStatusUpdate (StatusResponse True True) app_idle)"
  using capture_status_edges [of False True app_streaming]
    capture_status_edges [of True False app_idle]
    capture_status_edges [of True True app_idle]
  by simp

section \<open>Starting a capture\<close>

text \<open>
  C7. \<^verbatim>\<open>startCapture\<close> begins with \<^verbatim>\<open>GET /api/config\<close>. When the configuration says
  \<^verbatim>\<open>capture_mode: "rtsp"\<close> and has no \<^verbatim>\<open>rtsp_url\<close>, the only other thing it does is
  call \<^verbatim>\<open>addLog\<close> with a warning: the start endpoint is not called, and
  \<^verbatim>\<open>isCapturing\<close>, \<^verbatim>\<open>captureInProgress\<close> and every other field keep their values.
  The warning reaches the console at every log level but \<^verbatim>\<open>error\<close>.
\<close>

theorem startCapture_rtsp_without_url:
  assumes "capture_mode config = Some ''rtsp''" and "rtsp_url config = None"
  shows "startCapture (Response ok config) startReply s
           = s\<lparr>app_trace := app_trace s
                  @ [Fetch GET ''/api/config'' [], AddLog LWarning RtspUrlNotConfigured]\<rparr>
         \<and> isCapturing (startCapture (Response ok config) startReply s) = isCapturing s
         \<and> captureInProgress (startCapture (Response ok config) startReply s)
             = captureInProgress s
         \<and> (\<forall>body. Fetch POST ''/api/start_capture'' body
               \<notin> set (drop (length (app_trace s))
                        (app_trace (startCapture (Response ok config) startReply s))))
         \<and> console_lines lvl
               (drop (length (app_trace s))
                  (app_trace (startCapture (Response ok config) startReply s)))
             = (if lvl = LError then [] else [(LWarning, RtspUrlNotConfigured)])"
proof -
  have eq: "startCapture (Response ok config) startReply s
      = s\<lparr>app_trace := app_trace s
             @ [Fetch GET ''/api/config'' [], AddLog LWarning RtspUrlNotConfigured]\<rparr>"
    using assms
    by (simp add: startCapture_def Let_def or_else_def truthy_def addLog_def emit_def)
  show ?thesis
    unfolding eq by (cases lvl) (simp_all add: shouldLog_def)
qed

theorem startCapture_rtsp_without_url_witness:
  "startCapture (Response True \<lparr>capture_mode = Some ''rtsp'', rtsp_url = None\<rparr>)
     (Response True \<lparr>sr_message = None, sr_camera = None, sr_error = None\<rparr>) app_idle
   = app_idle\<lparr>app_trace := [Fetch GET ''/api/config'' [],
                              AddLog LWarning RtspUrlNotConfigured]\<rparr>"
  using startCapture_rtsp_without_url
    [of "\<lparr>capture_mode = Some ''rtsp'', rtsp_url = None\<rparr>" True
        "Response True \<lparr>sr_message = None, sr_camera = None, sr_error = None\<rparr>" app_idle]
  by (simp add: app_idle_def)

section \<open>Camera fragments\<close>

lemma aemit_fields [simp]:
  "buttons (aemit e s) = buttons s"
  "badges (aemit e s) = badges s"
  "fragments (aemit e s) = fragments s"
  "form_inputs (aemit e s) = form_inputs s"
  "additional_cameras (aemit e s) = additional_cameras s"
  "admin_trace (aemit e s) = admin_trace s @ [e]"
  by (simp_all add: aemit_def)

lemma adminLog_fields [simp]:
  "buttons (adminLog m t s) = buttons s"
  "badges (adminLog m t s) = badges s"
  "fragments (adminLog m t s) = fragments s"
  "form_inputs (adminLog m t s) = form_inputs s"
  "additional_cameras (adminLog m t s) = additional_cameras s"
  "admin_trace (adminLog m t s) = admin_trace s @ [ALog t m]"
  by (simp_all add: adminLog_def)

lemma addCameraConfig_collision:
  assumes "\<exists>f \<in> set (fragments s). data_camera_id f = next_camera_id s"
  shows "addCameraConfig s = aemit (AConsole LWarning (CameraExists (next_camera_id s))) s"
  using assms by (simp add: addCameraConfig_def next_camera_id_def Let_def)

lemma addCameraConfig_distinct:
  assumes "distinct (map data_camera_id (fragments s))"
  shows "distinct (map data_camera_id (fragments (addCameraConfig s)))"
  using assms by (auto simp add: addCameraConfig_def Let_def new_fragment_def)

lemma remove_first_id_subset:
  "set (map data_camera_id (remove_first_id c fs)) \<subseteq> set (map data_camera_id fs)"
  by (induction fs) auto

lemma remove_first_id_distinct:
  "distinct (map data_camera_id fs) \<Longrightarrow> distinct (map data_camera_id (remove_first_id c fs))"
proof (induction fs)
  case Nil
  then show ?case by simp
next
  case (Cons f fs)
  then show ?case using remove_first_id_subset [of c fs] by auto
qed

lemma removeCameraConfig_distinct:
  "distinct (map data_camera_id (fragments s))
   \<Longrightarrow> distinct (map data_camera_id (fragments (removeCameraConfig c s)))"
  by (simp add: removeCameraConfig_def saveCamerasConfiguration_def Let_def
      remove_first_id_distinct)

lemma set_in_document_ids [simp]:
  "map data_camera_id (set_in_document key v frs) = map data_camera_id frs"
  by (induction frs) auto

lemma populate_ids [simp]:
  "map data_camera_id (fragments (populateCameraFields camera s))
   = map data_camera_id (fragments s)"
proof -
  have "map data_camera_id (foldl (\<lambda>frs (key, v). set_in_document key v frs) frs camera)
        = map data_camera_id frs" for frs
    by (induction camera arbitrary: frs) (auto simp: case_prod_beta)
  then show ?thesis by (simp add: populateCameraFields_def)
qed

lemma load_fold_distinct:
  "distinct (map data_camera_id (fragments s))
   \<Longrightarrow> distinct (map data_camera_id
         (fragments (foldl (\<lambda>st camera. populateCameraFields camera (addCameraConfig st))
                       s cameras)))"
proof (induction cameras arbitrary: s)
  case Nil
  then show ?case by simp
next
  case (Cons c cs)
  have "distinct (map data_camera_id (fragments (populateCameraFields c (addCameraConfig s))))"
    using Cons.prems by (simp add: addCameraConfig_distinct)
  then show ?case using Cons.IH by simp
qed

lemma loadCamerasConfiguration_distinct:
  "distinct (map data_camera_id (fragments (loadCamerasConfiguration s)))"
  by (auto simp add: loadCamerasConfiguration_def clearExistingCameras_def Let_def
      split: option.splits intro!: load_fold_distinct)

lemma reachable_distinct:
  "reachable s \<Longrightarrow> distinct (map data_camera_id (fragments s))"
proof (induction rule: reachable.induct)
  case (empty s)
  then show ?case by simp
next
  case (add s)
  then show ?case by (simp add: addCameraConfig_distinct)
next
  case (remove s cameraId)
  then show ?case by (simp add: removeCameraConfig_distinct)
next
  case (clear s)
  then show ?case by (simp add: clearExistingCameras_def)
next
  case (load s)
  show ?case by (rule loadCamerasConfiguration_distinct)
next
  case (other s s')
  then show ?case by simp
qed

text \<open>
  C5. When the id that \<^verbatim>\<open>addCameraConfig\<close> generates, \<^verbatim>\<open>camera_{count+1}\<close>, is
  already the \<^verbatim>\<open>data-camera-id\<close> of a fragment, the call only writes a warning to
  the console: the state, and so the list of fragments, is otherwise unchanged. In
  every state that the container can reach, the fragments' ids are pairwise distinct.
\<close>

theorem addCameraConfig_no_duplicate:
  "((\<exists>f \<in> set (fragments s). data_camera_id f = next_camera_id s) \<longrightarrow>
      addCameraConfig s = aemit (AConsole LWarning (CameraExists (next_camera_id s))) s
      \<and> fragments (addCameraConfig s) = fragments s
      \<and> admin_console_lines lvl
            (drop (length (admin_trace s)) (admin_trace (addCameraConfig s)))
          = [(LWarning, CameraExists (next_camera_id s))])
   \<and> (reachable s \<longrightarrow> distinct (map data_camera_id (fragments s)))"
  using addCameraConfig_collision [of s] reachable_distinct [of s] by auto

lemma two_of_three_ids: "map data_camera_id (fragments two_of_three) = [''camera_2'', ''camera_3'']"
  by code_simp

lemma two_of_three_next: "next_camera_id two_of_three = ''camera_3''"
  by code_simp

theorem addCameraConfig_no_duplicate_witness:
  "map data_camera_id (fragments two_of_three) = [''camera_2'', ''camera_3'']
   \<and> next_camera_id two_of_three = ''camera_3''
   \<and> reachable two_of_three
   \<and> addCameraConfig two_of_three
       = aemit (AConsole LWarning (CameraExists ''camera_3'')) two_of_three
   \<and> fragments (addCameraConfig two_of_three) = fragments two_of_three
   \<and> distinct (map data_camera_id (fragments two_of_three))"
proof -
  have r: "reachable two_of_three"
    unfolding two_of_three_def
    by (intro reachable.remove reachable.add reachable.empty) (simp add: admin_page_def)
  have c: "\<exists>f \<in> set (fragments two_of_three). data_camera_id f = next_camera_id two_of_three"
    using two_of_three_ids two_of_three_next
    by (metis image_set list.set_intros(1) list.set_intros(2) imageE)
  show ?thesis
    using addCameraConfig_no_duplicate [of two_of_three] r c two_of_three_ids two_of_three_next
    by simp
qed


section \<open>The payload of a configuration save\<close>

lemma map_of_obj_set:
  "map_of (obj_set c k v) k' = (if k' = k then Some v else map_of c k')"
  by (induction c) auto

lemma map_of_fold_obj_set:
  "map_of (foldl (\<lambda>c (key, v). obj_set c key v) c0 fd) k = None
   \<longleftrightarrow> map_of c0 k = None \<and> k \<notin> fst ` set fd"
  by (induction fd arbitrary: c0) (auto simp: map_of_obj_set split: if_splits)

lemma validateConfiguration_fields [simp]:
  "fragments (snd (validateConfiguration v c s)) = fragments s"
  "\<exists>more. admin_trace (snd (validateConfiguration v c s)) = admin_trace s @ more
        \<and> (\<forall>e \<in> set more. \<exists>m. e = ALog LWarning m)"
  by (auto simp add: validateConfiguration_def Let_def)

text \<open>
  C10. When \<^verbatim>\<open>saveConfiguration\<close> sends its request, the body is the object built
  from the form's entries, to which the key \<^verbatim>\<open>ADDITIONAL_CAMERAS\<close> is added exactly
  when there is at least one camera fragment. With no fragment the body is the form's
  object alone: if the form has no entry of that name, the key is absent, not bound
  to an empty list.
\<close>

theorem saveConfiguration_additional_cameras_key:
  assumes "saveConfiguration_send formData isValidUrl stringify s = (True, s')"
  shows "last (admin_trace s')
           = AFetch POST ''/api/admin/config'' None
               (ConfigBody (build_config formData stringify (map descriptor_of (fragments s))))
         \<and> (fragments s = [] \<longrightarrow>
              build_config formData stringify (map descriptor_of (fragments s))
                = foldl (\<lambda>c (key, v). obj_set c key v) [] formData)
         \<and> (fragments s \<noteq> [] \<longrightarrow>
              map_of (build_config formData stringify (map descriptor_of (fragments s)))
                ''ADDITIONAL_CAMERAS''
                = Some (stringify (map descriptor_of (fragments s))))
         \<and> (fragments s = [] \<and> ''ADDITIONAL_CAMERAS'' \<notin> fst ` set formData \<longrightarrow>
              map_of (build_config formData stringify (map descriptor_of (fragments s)))
                ''ADDITIONAL_CAMERAS'' = None)"
proof -
  have sent: "last (admin_trace s')
           = AFetch POST ''/api/admin/config'' None
               (ConfigBody (build_config formData stringify (map descriptor_of (fragments s))))"
    using assms
    by (auto simp add: saveConfiguration_send_def saveCamerasConfiguration_def Let_def
        split: prod.splits if_splits)
  have absent: "map_of (build_config formData stringify []) ''ADDITIONAL_CAMERAS'' = None"
    if "''ADDITIONAL_CAMERAS'' \<notin> fst ` set formData"
    using that map_of_fold_obj_set [of "[]" formData "''ADDITIONAL_CAMERAS''"]
    by (simp add: build_config_def)
  show ?thesis
    using sent absent by (auto simp add: build_config_def map_of_obj_set)
qed

theorem saveConfiguration_additional_cameras_key_witness:
  "saveConfiguration_send mqtt_form accept_url json_stringify admin_page
     = (True, aemit (AFetch POST ''/api/admin/config'' None (ConfigBody mqtt_form))
                (admin_page\<lparr>additional_cameras := Some [],
                   admin_trace := [ALog LInfo SavingConfig]\<rparr>))
   \<and> map_of (build_config mqtt_form json_stringify (map descriptor_of (fragments admin_page)))
        ''ADDITIONAL_CAMERAS'' = None"
proof -
  have run: "saveConfiguration_send mqtt_form accept_url json_stringify admin_page
     = (True, aemit (AFetch POST ''/api/admin/config'' None (ConfigBody mqtt_form))
                (admin_page\<lparr>additional_cameras := Some [],
                   admin_trace := [ALog LInfo SavingConfig]\<rparr>))"
    by (simp add: saveConfiguration_send_def saveCamerasConfiguration_def Let_def
        validateConfiguration_def build_config_def mqtt_form_def admin_page_def
        config_has_def truthy_def adminLog_def aemit_def)
  have h: "fragments admin_page = []" "''ADDITIONAL_CAMERAS'' \<notin> fst ` set mqtt_form"
    by (simp_all add: admin_page_def mqtt_form_def)
  have "map_of (build_config mqtt_form json_stringify (map descriptor_of (fragments admin_page)))
        ''ADDITIONAL_CAMERAS'' = None"
    using saveConfiguration_additional_cameras_key [OF run] h by blast
  then show ?thesis
    using run by blast
qed

section \<open>Comma as decimal separator\<close>

















section \<open>Restart and the health poll\<close>

lemma fetchWithTimeout_duration:
  "late \<le> slack \<Longrightarrow> snd (fetchWithTimeout 2000 late p) \<le> 2000 + slack"
  by (simp add: fetchWithTimeout_def)

lemma wait_loop_stop:
  "\<not> elapsed < maxSeconds * 1000 \<Longrightarrow> wait_loop maxSeconds env elapsed s = (False, s)"
  by (subst wait_loop.simps) simp

lemma wait_loop_ok:
  "elapsed < maxSeconds * 1000 \<Longrightarrow> answered_ok env elapsed
   \<Longrightarrow> wait_loop maxSeconds env elapsed s = (True, aemit metrics_probe s)"
  by (subst wait_loop.simps) (simp add: Let_def answered_ok_def metrics_probe_def)

lemma wait_loop_retry:
  "elapsed < maxSeconds * 1000 \<Longrightarrow> \<not> answered_ok env elapsed
   \<Longrightarrow> wait_loop maxSeconds env elapsed s
       = wait_loop maxSeconds env
           (elapsed + snd (fetchWithTimeout 2000 (abort_late env elapsed) (env_server env elapsed))
            + 1000
            + pause_late env
                (elapsed
                 + snd (fetchWithTimeout 2000 (abort_late env elapsed) (env_server env elapsed))))
           (aemit metrics_probe s)"
  by (subst wait_loop.simps) (simp add: Let_def answered_ok_def metrics_probe_def)

lemma wait_loop_never:
  "\<forall>t < maxSeconds * 1000. \<not> answered_ok env t
   \<Longrightarrow> fst (wait_loop maxSeconds env elapsed s) = False"
proof (induction maxSeconds env elapsed s rule: wait_loop.induct)
  case (1 maxSeconds env elapsed s)
  show ?case
  proof (cases "elapsed < maxSeconds * 1000")
    case True
    then have no: "\<not> answered_ok env elapsed"
      using "1.prems" by simp
    then have "fst (fetchWithTimeout 2000 (abort_late env elapsed) (env_server env elapsed))
        \<noteq> POk"
      by (simp add: answered_ok_def)
    from "1.IH" [OF True refl refl refl this "1.prems"]
    show ?thesis
      by (simp add: wait_loop_retry [OF True no] metrics_probe_def)
  next
    case False
    then show ?thesis by (simp add: wait_loop_stop)
  qed
qed

lemma wait_loop_eventually:
  "\<forall>t \<ge> T. answered_ok env t
   \<Longrightarrow> \<forall>t. abort_late env t \<le> slack \<and> pause_late env t \<le> slack
   \<Longrightarrow> T + 3000 + 2 * slack \<le> maxSeconds * 1000
   \<Longrightarrow> elapsed < T + 3000 + 2 * slack
   \<Longrightarrow> fst (wait_loop maxSeconds env elapsed s) = True"
proof (induction maxSeconds env elapsed s rule: wait_loop.induct)
  case (1 maxSeconds env elapsed s)
  have lt: "elapsed < maxSeconds * 1000"
    using "1.prems"(3,4) by linarith
  show ?case
  proof (cases "answered_ok env elapsed")
    case True
    then show ?thesis by (simp add: wait_loop_ok [OF lt])
  next
    case False
    define d where
      "d = snd (fetchWithTimeout 2000 (abort_late env elapsed) (env_server env elapsed))"
    have "\<not> T \<le> elapsed"
      using "1.prems"(1) False by blast
    moreover have "d \<le> 2000 + slack"
      unfolding d_def using "1.prems"(2) by (intro fetchWithTimeout_duration) blast
    moreover have "pause_late env (elapsed + d) \<le> slack"
      using "1.prems"(2) by blast
    ultimately have next_lt: "elapsed + d + 1000 + pause_late env (elapsed + d)
        < T + 3000 + 2 * slack"
      by linarith
    have "fst (fetchWithTimeout 2000 (abort_late env elapsed) (env_server env elapsed))
        \<noteq> POk"
      using False by (simp add: answered_ok_def)
    from "1.IH" [OF lt refl refl refl this "1.prems"(1,2,3)] next_lt
    show ?thesis
      by (simp add: wait_loop_retry [OF lt False] metrics_probe_def d_def)
  qed
qed

lemma wait_loop_trace:
  "\<exists>n. admin_trace (snd (wait_loop maxSeconds env elapsed s))
          = admin_trace s @ replicate n metrics_probe
        \<and> (n = 0 \<or> elapsed + n * 1000 \<le> maxSeconds * 1000 + 999)"
proof (induction maxSeconds env elapsed s rule: wait_loop.induct)
  case (1 maxSeconds env elapsed s)
  consider (stop) "\<not> elapsed < maxSeconds * 1000"
    | (ok) "elapsed < maxSeconds * 1000" "answered_ok env elapsed"
    | (retry) "elapsed < maxSeconds * 1000" "\<not> answered_ok env elapsed"
    by blast
  then show ?case
  proof cases
    case stop
    then have "admin_trace (snd (wait_loop maxSeconds env elapsed s))
        = admin_trace s @ replicate 0 metrics_probe"
      by (simp add: wait_loop_stop)
    then show ?thesis by blast
  next
    case ok
    then have "admin_trace (snd (wait_loop maxSeconds env elapsed s))
        = admin_trace s @ replicate 1 metrics_probe"
      by (simp add: wait_loop_ok aemit_def)
    moreover have "elapsed + 1 * 1000 \<le> maxSeconds * 1000 + 999"
      using ok(1) by linarith
    ultimately show ?thesis by blast
  next
    case retry
    define d where
      "d = snd (fetchWithTimeout 2000 (abort_late env elapsed) (env_server env elapsed))"
    define p where "p = pause_late env (elapsed + d)"
    define s1 where "s1 = aemit (AFetch GET ''/api/metrics'' (Some 2000) NoBody) s"
    have "fst (fetchWithTimeout 2000 (abort_late env elapsed) (env_server env elapsed))
        \<noteq> POk"
      using retry(2) by (simp add: answered_ok_def)
    from "1.IH" [OF retry(1) refl refl refl this]
    obtain n where tr:
      "admin_trace (snd (wait_loop maxSeconds env (elapsed + d + 1000 + p) s1))
          = admin_trace s1 @ replicate n metrics_probe"
      and bound: "n = 0 \<or> elapsed + d + 1000 + p + n * 1000 \<le> maxSeconds * 1000 + 999"
      unfolding d_def p_def s1_def by blast
    have step: "wait_loop maxSeconds env elapsed s
        = wait_loop maxSeconds env (elapsed + d + 1000 + p) s1"
      unfolding d_def p_def s1_def using wait_loop_retry [OF retry, of s]
      by (simp add: metrics_probe_def)
    have "admin_trace s1 = admin_trace s @ [metrics_probe]"
      by (simp add: s1_def aemit_def metrics_probe_def)
    then have "admin_trace (snd (wait_loop maxSeconds env elapsed s))
        = admin_trace s @ replicate (Suc n) metrics_probe"
      unfolding step tr by simp
    moreover have "elapsed + Suc n * 1000 \<le> maxSeconds * 1000 + 999"
      using bound retry(1) by (cases "n = 0") simp_all
    ultimately show ?thesis by blast
  qed
qed

lemma set_disabled_fields [simp]:
  "badges (set_disabled b v s) = badges s"
  "fragments (set_disabled b v s) = fragments s"
  "form_inputs (set_disabled b v s) = form_inputs s"
  "additional_cameras (set_disabled b v s) = additional_cameras s"
  "admin_trace (set_disabled b v s) = admin_trace s"
  by (simp_all add: set_disabled_def split: option.splits)

lemma set_disabled_off [simp]: "buttons (set_disabled b False s) b \<noteq> Some True"
  by (simp add: set_disabled_def split: option.splits)

lemma setBadge_fields [simp]:
  "buttons (setBadge i st t ti s) = buttons s"
  "fragments (setBadge i st t ti s) = fragments s"
  "form_inputs (setBadge i st t ti s) = form_inputs s"
  "additional_cameras (setBadge i st t ti s) = additional_cameras s"
  "admin_trace (setBadge i st t ti s) = admin_trace s"
  by (simp_all add: setBadge_def split: option.splits)

lemma restartApplication_confirmed:
  "restartApplication True (Response True status) env s
   = (let s4 = adminLog WaitingForServer LInfo
                 (adminLog RestartInitiated LSuccess
                   (aemit (AFetch POST ''/api/admin/restart'' None NoBody)
                     (set_disabled ''restart-app'' True (adminLog RestartStarting LInfo s))));
          r = wait_loop 60 env 0 s4
      in set_disabled ''restart-app'' False
           (if fst r then aemit Reload (adminLog ServerBackReloading LSuccess (snd r))
            else adminLog CannotConfirmRestart LWarning (snd r)))"
  by (simp add: restartApplication_def waitForServerBack_def Let_def split: prod.splits)

lemma restart_poll_trace:
  "\<exists>n \<le> 60.
     admin_trace (restartApplication True (Response True status) env s)
       = admin_trace s
         @ [ALog LInfo RestartStarting, AFetch POST ''/api/admin/restart'' None NoBody,
            ALog LSuccess RestartInitiated, ALog LInfo WaitingForServer]
         @ replicate n metrics_probe
         @ (if fst (wait_loop 60 env 0
                      (adminLog WaitingForServer LInfo
                        (adminLog RestartInitiated LSuccess
                          (aemit (AFetch POST ''/api/admin/restart'' None NoBody)
                            (set_disabled ''restart-app'' True
                              (adminLog RestartStarting LInfo s))))))
            then [ALog LSuccess ServerBackReloading, Reload]
            else [ALog LWarning CannotConfirmRestart])"
proof -
  define s4 where "s4 = adminLog WaitingForServer LInfo
                 (adminLog RestartInitiated LSuccess
                   (aemit (AFetch POST ''/api/admin/restart'' None NoBody)
                     (set_disabled ''restart-app'' True (adminLog RestartStarting LInfo s))))"
  obtain n where tr: "admin_trace (snd (wait_loop 60 env 0 s4))
          = admin_trace s4 @ replicate n metrics_probe"
    and bound: "n = 0 \<or> 0 + n * 1000 \<le> 60 * 1000 + 999"
    using wait_loop_trace [of 60 env 0 s4] by blast
  have n60: "n \<le> 60" using bound by linarith
  have s4tr: "admin_trace s4 = admin_trace s
         @ [ALog LInfo RestartStarting, AFetch POST ''/api/admin/restart'' None NoBody,
            ALog LSuccess RestartInitiated, ALog LInfo WaitingForServer]"
    by (simp add: s4_def)
  have "admin_trace (restartApplication True (Response True status) env s)
       = admin_trace s
         @ [ALog LInfo RestartStarting, AFetch POST ''/api/admin/restart'' None NoBody,
            ALog LSuccess RestartInitiated, ALog LInfo WaitingForServer]
         @ replicate n metrics_probe
         @ (if fst (wait_loop 60 env 0 s4)
            then [ALog LSuccess ServerBackReloading, Reload]
            else [ALog LWarning CannotConfirmRestart])"
    unfolding restartApplication_confirmed s4_def [symmetric] Let_def
    by (simp add: tr s4tr)
  then show ?thesis
    unfolding s4_def using n60 by blast
qed

text \<open>
  C1, as amended. After the confirmation and a successful
  \<^verbatim>\<open>POST /api/admin/restart\<close>, the flow probes \<^verbatim>\<open>/api/metrics\<close> with a timeout of
  2000 ms, at most 60 times, starting a probe only while fewer than 60 seconds have
  passed. If no probe that starts before the 60-second mark is answered ok before its
  abort timer fires, the flow ends with the manual-reload warning and no reload. If
  no timer fires more than \<open>slack\<close> milliseconds late and, from a moment \<open>T\<close> with
  \<open>T + 3000 + 2 * slack \<le> 60000\<close> on, every probe is answered ok before its abort
  timer fires, the flow logs success and reloads the page. (Between the starts of two
  probes lie at most the 2 s timeout and the 1 s pause, each late by at most
  \<open>slack\<close>.)
\<close>

theorem restartApplication_poll:
  "((\<forall>t < 60000. \<not> answered_ok env t) \<longrightarrow>
      (\<exists>n \<le> 60.
         admin_trace (restartApplication True (Response True status) env s)
           = admin_trace s
             @ [ALog LInfo RestartStarting, AFetch POST ''/api/admin/restart'' None NoBody,
                ALog LSuccess RestartInitiated, ALog LInfo WaitingForServer]
             @ replicate n metrics_probe
             @ [ALog LWarning CannotConfirmRestart]))
   \<and> ((\<forall>t. abort_late env t \<le> slack \<and> pause_late env t \<le> slack)
        \<and> T + 3000 + 2 * slack \<le> 60000
        \<and> (\<forall>t \<ge> T. answered_ok env t) \<longrightarrow>
      (\<exists>n \<le> 60.
         admin_trace (restartApplication True (Response True status) env s)
           = admin_trace s
             @ [ALog LInfo RestartStarting, AFetch POST ''/api/admin/restart'' None NoBody,
                ALog LSuccess RestartInitiated, ALog LInfo WaitingForServer]
             @ replicate n metrics_probe
             @ [ALog LSuccess ServerBackReloading, Reload]))"
proof (intro conjI impI)
  assume "\<forall>t < 60000. \<not> answered_ok env t"
  then have "\<And>s'. fst (wait_loop 60 env 0 s') = False"
    using wait_loop_never [of 60 env] by simp
  then show "\<exists>n \<le> 60.
         admin_trace (restartApplication True (Response True status) env s)
           = admin_trace s
             @ [ALog LInfo RestartStarting, AFetch POST ''/api/admin/restart'' None NoBody,
                ALog LSuccess RestartInitiated, ALog LInfo WaitingForServer]
             @ replicate n metrics_probe
             @ [ALog LWarning CannotConfirmRestart]"
    using restart_poll_trace [of status env s] by simp
next
  assume h: "(\<forall>t. abort_late env t \<le> slack \<and> pause_late env t \<le> slack)
        \<and> T + 3000 + 2 * slack \<le> 60000
        \<and> (\<forall>t \<ge> T. answered_ok env t)"
  have "\<And>s'. fst (wait_loop 60 env 0 s') = True"
    using h by (intro wait_loop_eventually [of T env slack 60]) simp_all
  then show "\<exists>n \<le> 60.
         admin_trace (restartApplication True (Response True status) env s)
           = admin_trace s
             @ [ALog LInfo RestartStarting, AFetch POST ''/api/admin/restart'' None NoBody,
                ALog LSuccess RestartInitiated, ALog LInfo WaitingForServer]
             @ replicate n metrics_probe
             @ [ALog LSuccess ServerBackReloading, Reload]"
    using restart_poll_trace [of status env s] by simp
qed

lemma never_ok_60: "\<forall>t < 60000. \<not> answered_ok (ok_from 60000 0 0) t"
  by (simp add: answered_ok_def ok_from_def server_ok_from_def fetchWithTimeout_def)

lemma ok_from_56:
  "(\<forall>t. abort_late (ok_from 56000 1500 100) t \<le> 100
        \<and> pause_late (ok_from 56000 1500 100) t \<le> 100)
   \<and> 56000 + 3000 + 2 * 100 \<le> (60000 :: nat)
   \<and> (\<forall>t \<ge> 56000. answered_ok (ok_from 56000 1500 100) t)"
  by (simp add: answered_ok_def ok_from_def server_ok_from_def fetchWithTimeout_def)

theorem restartApplication_poll_witness:
  "(\<exists>n \<le> 60.
      admin_trace (restartApplication True (Response True 200) (ok_from 60000 0 0) admin_page)
        = admin_trace admin_page
          @ [ALog LInfo RestartStarting, AFetch POST ''/api/admin/restart'' None NoBody,
             ALog LSuccess RestartInitiated, ALog LInfo WaitingForServer]
          @ replicate n metrics_probe
          @ [ALog LWarning CannotConfirmRestart])
   \<and> (\<exists>n \<le> 60.
      admin_trace (restartApplication True (Response True 200) (ok_from 56000 1500 100)
                     admin_page)
        = admin_trace admin_page
          @ [ALog LInfo RestartStarting, AFetch POST ''/api/admin/restart'' None NoBody,
             ALog LSuccess RestartInitiated, ALog LInfo WaitingForServer]
          @ replicate n metrics_probe
          @ [ALog LSuccess ServerBackReloading, Reload])"
  using restartApplication_poll [where env = "ok_from 60000 0 0" and status = 200
      and s = admin_page]
    restartApplication_poll [where env = "ok_from 56000 1500 100" and status = 200
      and s = admin_page and slack = 100 and T = 56000]
    never_ok_60 ok_from_56
  by blast

lemma late_server_gives_up:
  "fst (wait_loop 60 (ok_from 59000 1500 0) 0 s) = False"
  by (simp add: wait_loop_retry wait_loop_stop answered_ok_def ok_from_def server_ok_from_def
      fetchWithTimeout_def)

lemma gave_up_trace:
  assumes "\<And>s'. fst (wait_loop 60 env 0 s') = False"
  shows "Reload \<notin> set (admin_trace (restartApplication True (Response True 200) env admin_page))
     \<and> last (admin_trace (restartApplication True (Response True 200) env admin_page))
         = ALog LWarning CannotConfirmRestart"
proof -
  obtain n where "admin_trace (restartApplication True (Response True 200) env admin_page)
       = admin_trace admin_page
         @ [ALog LInfo RestartStarting, AFetch POST ''/api/admin/restart'' None NoBody,
            ALog LSuccess RestartInitiated, ALog LInfo WaitingForServer]
         @ replicate n metrics_probe
         @ [ALog LWarning CannotConfirmRestart]"
    using restart_poll_trace [of 200 env admin_page] assms by auto
  then show ?thesis
    by (simp add: admin_page_def metrics_probe_def)
qed

text \<open>
  C1 as stated fails, already when every timer is exact. A server that answers not-ok
  after 1.5 s for the first 59 seconds and ok from then on is probed every 2.5 s, the
  last time at 57.5 s; the next probe would start at 60 s and is not made. A server
  that is ok exactly from the 60-second mark on is never probed at or after that
  mark. Both runs end with the warning and without a reload.
\<close>

theorem restartApplication_poll_counterexample:
  "abort_late (ok_from 59000 1500 0) = (\<lambda>t. 0) \<and> pause_late (ok_from 59000 1500 0) = (\<lambda>t. 0)
   \<and> env_server (ok_from 59000 1500 0) 58999 = \<lparr>p_result = PNotOk, p_latency = 1500\<rparr>
   \<and> env_server (ok_from 59000 1500 0) 59000 = \<lparr>p_result = POk, p_latency = 0\<rparr>
   \<and> env_server (ok_from 59000 1500 0) 60000 = \<lparr>p_result = POk, p_latency = 0\<rparr>
   \<and> Reload \<notin> set (admin_trace (restartApplication True (Response True 200)
                                  (ok_from 59000 1500 0) admin_page))
   \<and> last (admin_trace (restartApplication True (Response True 200)
                          (ok_from 59000 1500 0) admin_page))
       = ALog LWarning CannotConfirmRestart
   \<and> env_server (ok_from 60000 0 0) 59999 = \<lparr>p_result = PNotOk, p_latency = 0\<rparr>
   \<and> env_server (ok_from 60000 0 0) 60000 = \<lparr>p_result = POk, p_latency = 0\<rparr>
   \<and> Reload \<notin> set (admin_trace (restartApplication True (Response True 200)
                                  (ok_from 60000 0 0) admin_page))
   \<and> last (admin_trace (restartApplication True (Response True 200)
                          (ok_from 60000 0 0) admin_page))
       = ALog LWarning CannotConfirmRestart"
proof -
  have "\<And>s'. fst (wait_loop 60 (ok_from 60000 0 0) 0 s') = False"
    using wait_loop_never [of 60 "ok_from 60000 0 0"] never_ok_60 by simp
  then show ?thesis
    using gave_up_trace [of "ok_from 59000 1500 0"] gave_up_trace [of "ok_from 60000 0 0"]
      late_server_gives_up
    by (simp add: ok_from_def server_ok_from_def)
qed

section \<open>Cleanup after asynchronous actions\<close>

lemma content_fields [simp]:
  "start_capture_content_d_none (emit e s) = start_capture_content_d_none s"
  "start_capture_content_d_none (addLog m t s) = start_capture_content_d_none s"
  "start_capture_content_d_none (updateCaptureControls s) = start_capture_content_d_none s"
  "start_capture_content_d_none (showCaptureLoading b s) = b"
  "start_capture_content_d_none (showToggleButton s) = start_capture_content_d_none s"
  "start_capture_content_d_none (hideToggleButton s) = start_capture_content_d_none s"
  "start_capture_content_d_none (stopVideoStream s) = start_capture_content_d_none s"
  by (simp_all add: emit_def addLog_def updateCaptureControls_def showCaptureLoading_def
      showToggleButton_def hideToggleButton_def stopVideoStream_def Let_def
      split: option.splits)

lemma displayCameraInfo_fields [simp]:
  "isCapturing (displayCameraInfo c s) = isCapturing s"
  "start_capture_disabled (displayCameraInfo c s) = start_capture_disabled s"
  "stop_capture_disabled (displayCameraInfo c s) = stop_capture_disabled s"
  "start_capture_loading_d_none (displayCameraInfo c s) = start_capture_loading_d_none s"
  "start_capture_content_d_none (displayCameraInfo c s) = start_capture_content_d_none s"
  by (simp_all add: displayCameraInfo_def split: option.splits)

lemma startCapture_stable: "ui_stable s \<Longrightarrow> ui_stable (startCapture c r s)"
  by (cases c; cases r)
    (auto simp add: ui_stable_def startCapture_def Let_def split: if_splits)

lemma stopCapture_stable: "ui_stable s \<Longrightarrow> ui_stable (stopCapture r s)"
  by (cases r) (auto simp add: ui_stable_def stopCapture_def Let_def split: if_splits)

lemma settled_fields [simp]:
  "badge_settled (aemit e s) i = badge_settled s i"
  "badge_settled (adminLog m t s) i = badge_settled s i"
  "badge_settled (set_disabled b v s) i = badge_settled s i"
  by (simp_all add: badge_settled_def)

lemma setBadge_settles:
  "st \<noteq> ''loading'' \<Longrightarrow> badge_settled (setBadge i st t ti s) i"
  by (auto simp add: badge_settled_def setBadge_def badge_map_def or_else_def
      split: option.splits)

lemma testAI_cleanup:
  "buttons (testAI reply s) ''test-ai'' \<noteq> Some True
   \<and> badge_settled (testAI reply s) ''test-ai-status''"
  by (cases reply) (simp_all add: testAI_def Let_def setBadge_settles)

lemma testMQTT_cleanup:
  "buttons (testMQTT reply s) ''test-mqtt'' \<noteq> Some True
   \<and> badge_settled (testMQTT reply s) ''test-mqtt-status''"
  by (cases reply) (simp_all add: testMQTT_def Let_def setBadge_settles split: option.splits)

lemma testRTSP_cleanup:
  "buttons (testRTSP u reply s) ''test-rtsp'' \<noteq> Some True
   \<and> badge_settled (testRTSP u reply s) ''test-rtsp-status''"
  by (cases reply) (simp_all add: testRTSP_def Let_def setBadge_settles)

lemma foldl_log_badges:
  "badges (foldl (\<lambda>st r. adminLog (f r) (g r) st) s rs) = badges s"
  by (induction rs arbitrary: s) simp_all

lemma saveCameras_fields [simp]:
  "buttons (snd (saveCamerasConfiguration s)) = buttons s"
  "badges (snd (saveCamerasConfiguration s)) = badges s"
  "fragments (snd (saveCamerasConfiguration s)) = fragments s"
  "admin_trace (snd (saveCamerasConfiguration s)) = admin_trace s"
  "fst (saveCamerasConfiguration s) = map descriptor_of (fragments s)"
  by (simp_all add: saveCamerasConfiguration_def Let_def)

lemma testCameras_cleanup:
  "buttons (testCameras reply s) ''test-cameras'' \<noteq> Some True
   \<and> badge_settled (testCameras reply s) ''test-cameras-status''"
proof -
  have fold_settled: "badge_settled (foldl (\<lambda>st r. adminLog (f r) (g r) st) s' rs) i
      = badge_settled s' i" for f g s' rs i
    by (simp add: badge_settled_def foldl_log_badges)
  show ?thesis
    by (cases reply)
      (simp_all add: testCameras_def Let_def setBadge_settles fold_settled
        split: prod.splits option.splits)
qed

lemma restart_cleanup:
  "buttons (restartApplication True reply env s) ''restart-app'' \<noteq> Some True"
  by (simp add: restartApplication_def Let_def)

text \<open>
  C8, as amended. Each connectivity test and the restart end, whatever the request
  produced (a success, a structured failure, an exception, an aborted request), with
  the triggering button not disabled and, for the tests, the badge out of its loading
  state. Start and stop of a capture take controls at rest to controls at rest: the
  spinner ends hidden, and the start button ends enabled exactly when no capture is
  running, the stop button exactly when one is.
\<close>

theorem cleanup_after_every_action:
  "buttons (testAI aiReply s) ''test-ai'' \<noteq> Some True
   \<and> badge_settled (testAI aiReply s) ''test-ai-status''
   \<and> buttons (testMQTT mqttReply s) ''test-mqtt'' \<noteq> Some True
   \<and> badge_settled (testMQTT mqttReply s) ''test-mqtt-status''
   \<and> buttons (testRTSP urlField rtspReply s) ''test-rtsp'' \<noteq> Some True
   \<and> badge_settled (testRTSP urlField rtspReply s) ''test-rtsp-status''
   \<and> buttons (testCameras camerasReply s) ''test-cameras'' \<noteq> Some True
   \<and> badge_settled (testCameras camerasReply s) ''test-cameras-status''
   \<and> buttons (restartApplication True restartReply env s) ''restart-app'' \<noteq> Some True
   \<and> (ui_stable a \<longrightarrow>
        ui_stable (startCapture configReply startReply a) \<and> ui_stable (stopCapture stopReply a))"
  using testAI_cleanup [of aiReply s] testMQTT_cleanup [of mqttReply s]
    testRTSP_cleanup [of urlField rtspReply s] testCameras_cleanup [of camerasReply s]
    restart_cleanup [of restartReply env s]
    startCapture_stable [of a configReply startReply] stopCapture_stable [of a stopReply]
  by blast

theorem cleanup_after_every_action_witness:
  "buttons (testAI (Response True ai_down) admin_page) ''test-ai'' \<noteq> Some True
   \<and> badge_settled (testAI (Response True ai_down) admin_page) ''test-ai-status''
   \<and> buttons (restartApplication True (Throws ''Failed to fetch'') (ok_from 0 0 0) admin_page)
        ''restart-app'' \<noteq> Some True
   \<and> ui_stable app_idle
   \<and> ui_stable (startCapture (Response True ha_config) (Response True started) app_idle)
   \<and> ui_stable (stopCapture (Throws ''Failed to fetch'') app_idle)"
proof -
  have "ui_stable app_idle"
    by (simp add: ui_stable_def app_idle_def)
  then show ?thesis
    using cleanup_after_every_action
      [of "Response True ai_down" admin_page _ _ _ _ "Throws ''Failed to fetch''"
          "ok_from 0 0 0" app_idle "Response True ha_config" "Response True started"
          "Throws ''Failed to fetch''"]
    by blast
qed

text \<open>
  C8 as stated fails: after a successful start the start button, which triggered the
  action, is disabled, and after a successful stop the stop button is.
\<close>

theorem cleanup_after_every_action_counterexample:
  "start_capture_disabled app_idle = False
   \<and> start_capture_disabled
        (startCapture (Response True ha_config) (Response True started) app_idle) = True
   \<and> stop_capture_disabled app_streaming = False
   \<and> stop_capture_disabled
        (stopCapture (Response True \<lparr>st_error = None\<rparr>) app_streaming) = True"
  by (simp add: startCapture_def stopCapture_def Let_def ha_config_def started_def
      or_else_def truthy_def app_idle_def app_streaming_def)

section \<open>Saving a detection\<close>

lemma loadDetections_fields [simp]:
  "modal_shown (loadDetections r s) = modal_shown s"
  "editDetectionId (loadDetections r s) = editDetectionId s"
  "\<exists>rest. app_trace (loadDetections r s) = app_trace s @ Fetch GET ''/api/detections'' [] # rest"
  "detections (loadDetections (DetectionsArray ds) s) = ds"
  "detections_list (loadDetections (DetectionsArray ds) s) = ds"
  by (cases r; simp add: loadDetections_def updateDetectionsList_def Let_def addLog_def emit_def)+

lemma read_json_body: "body_json r = Some e \<Longrightarrow> \<exists>raw. read_body r = Inr (Some e, raw)"
  by (simp add: read_body_def)

lemma saveDetection_rejects:
  assumes "\<not> truthy (editDetectionId s)" and "trim name_value = []"
  shows "saveDetection name_value phrase_value webhook_value reply listReply s
         = addLog NameAndPhraseRequired LWarning s"
  using assms by (simp add: saveDetection_def Let_def)

lemma saveDetection_rejects_webhook:
  assumes "\<not> truthy (editDetectionId s)"
    and "trim name_value \<noteq> []" and "trim phrase_value \<noteq> []"
    and "trim webhook_value \<noteq> []" and "\<not> matches_http_url (trim webhook_value)"
  shows "saveDetection name_value phrase_value webhook_value reply listReply s
         = addLog InvalidWebhookUrl LWarning s"
  using assms by (simp add: saveDetection_def Let_def)

lemma saveDetection_request:
  assumes "\<not> truthy (editDetectionId s)"
    and "trim name_value \<noteq> []" and "trim phrase_value \<noteq> []"
    and "trim webhook_value = [] \<or> matches_http_url (trim webhook_value)"
  shows "\<exists>rest. app_trace (saveDetection name_value phrase_value webhook_value reply listReply s)
           = app_trace s
             @ Fetch POST ''/api/detections''
                 [(''name'', trim name_value), (''phrase'', trim phrase_value),
                  (''webhook_url'', trim webhook_value)] # rest"
proof -
  define sent where "sent = emit (Fetch POST ''/api/detections''
                 [(''name'', trim name_value), (''phrase'', trim phrase_value),
                  (''webhook_url'', trim webhook_value)]) s"
  have sent_trace: "app_trace sent = app_trace s
             @ [Fetch POST ''/api/detections''
                 [(''name'', trim name_value), (''phrase'', trim phrase_value),
                  (''webhook_url'', trim webhook_value)]]"
    by (simp add: sent_def)
  have run: "saveDetection name_value phrase_value webhook_value reply listReply s
      = (case reply of
           Throws m \<Rightarrow> addLog (SaveError m) LError sent
         | Response ok r \<Rightarrow>
             (case read_body r of
                Inl m \<Rightarrow> addLog (SaveError m) LError sent
              | Inr (result, rawText) \<Rightarrow>
                  if ok then
                    emit (FormReset ''detection-form'')
                      (addLog (DetectionDone ''ajoutee'' (trim name_value)) LSuccess
                        ((loadDetections listReply
                           (emit ModalHide (sent\<lparr>modal_shown := False\<rparr>)))
                         \<lparr>editDetectionId := None\<rparr>))
                  else
                    addLog (ErrorColon
                              (if (case result of Some e \<Rightarrow> truthy e | None \<Rightarrow> False)
                               then the (the result)
                               else if rawText \<noteq> [] then take 200 rawText
                               else resp_statusText r)) LError sent))"
    using assms unfolding sent_def by (auto simp add: saveDetection_def Let_def)
  obtain more where reload:
    "app_trace (loadDetections listReply (emit ModalHide (sent\<lparr>modal_shown := False\<rparr>)))
       = app_trace (emit ModalHide (sent\<lparr>modal_shown := False\<rparr>))
         @ Fetch GET ''/api/detections'' [] # more"
    using loadDetections_fields(3) by blast
  show ?thesis
  proof (cases reply)
    case (Throws m)
    then show ?thesis
      using run by (simp add: sent_trace)
  next
    case (Response ok r)
    show ?thesis
    proof (cases "read_body r")
      case (Inl m)
      then show ?thesis
        using run by (simp add: Response sent_trace)
    next
      case (Inr b)
      then show ?thesis
        using run
        by (cases b; cases ok) (simp_all add: Response sent_trace reload)
    qed
  qed
qed

lemma saveDetection_posts:
  assumes "\<not> truthy (editDetectionId s)"
    and "trim name_value \<noteq> []" and "trim phrase_value \<noteq> []"
    and "trim webhook_value = [] \<or> matches_http_url (trim webhook_value)"
    and "body_json r = Some e"
  shows "saveDetection name_value phrase_value webhook_value (Response True r) listReply s
         = emit (FormReset ''detection-form'')
             (addLog (DetectionDone ''ajoutee'' (trim name_value)) LSuccess
               ((loadDetections listReply
                  (emit ModalHide
                    ((emit (Fetch POST ''/api/detections''
                              [(''name'', trim name_value), (''phrase'', trim phrase_value),
                               (''webhook_url'', trim webhook_value)]) s)
                     \<lparr>modal_shown := False\<rparr>)))
                \<lparr>editDetectionId := None\<rparr>))"
proof -
  obtain raw where "read_body r = Inr (Some e, raw)"
    using read_json_body [OF assms(5)] by blast
  then show ?thesis
    using assms(1-4) by (auto simp add: saveDetection_def Let_def)
qed

text \<open>
  C6, as amended. In create mode (no \<^verbatim>\<open>editDetectionId\<close>) a name that is empty after
  trimming makes \<^verbatim>\<open>saveDetection\<close> log a warning and do nothing else, whatever the
  phrase: no request is made. With a name and a phrase, a webhook URL that is neither
  empty nor a match of \<^verbatim>\<open>^https?://.+\<close> makes it log another warning and do nothing
  else. With a name and a phrase, and a webhook URL that is empty or matches, it sends
  \<^verbatim>\<open>POST /api/detections\<close> with the three trimmed values, whatever the request then
  produces; on a response that is ok and has a JSON body it hides the modal and
  fetches the detections again, and the list shows what that fetch returns.
\<close>

theorem saveDetection_create:
  assumes "\<not> truthy (editDetectionId s)"
  shows "(trim name_value = [] \<longrightarrow>
            saveDetection name_value phrase_value webhook_value reply listReply s
              = addLog NameAndPhraseRequired LWarning s)
         \<and> (trim name_value \<noteq> [] \<and> trim phrase_value \<noteq> []
              \<and> trim webhook_value \<noteq> [] \<and> \<not> matches_http_url (trim webhook_value) \<longrightarrow>
            saveDetection name_value phrase_value webhook_value reply listReply s
              = addLog InvalidWebhookUrl LWarning s)
         \<and> (trim name_value \<noteq> [] \<and> trim phrase_value \<noteq> []
              \<and> (trim webhook_value = [] \<or> matches_http_url (trim webhook_value)) \<longrightarrow>
            (\<exists>rest.
               app_trace (saveDetection name_value phrase_value webhook_value reply listReply s)
               = app_trace s
                 @ Fetch POST ''/api/detections''
                     [(''name'', trim name_value), (''phrase'', trim phrase_value),
                      (''webhook_url'', trim webhook_value)] # rest))
         \<and> (trim name_value \<noteq> [] \<and> trim phrase_value \<noteq> []
              \<and> (trim webhook_value = [] \<or> matches_http_url (trim webhook_value))
              \<and> body_json r = Some e \<longrightarrow>
            \<not> modal_shown
                (saveDetection name_value phrase_value webhook_value (Response True r) listReply s)
            \<and> (\<exists>rest.
                 app_trace
                   (saveDetection name_value phrase_value webhook_value (Response True r)
                      listReply s)
                 = app_trace s
                   @ [Fetch POST ''/api/detections''
                        [(''name'', trim name_value), (''phrase'', trim phrase_value),
                         (''webhook_url'', trim webhook_value)],
                      ModalHide, Fetch GET ''/api/detections'' []]
                   @ rest)
            \<and> (\<forall>ds. listReply = DetectionsArray ds \<longrightarrow>
                   detections_list
                     (saveDetection name_value phrase_value webhook_value (Response True r)
                        listReply s) = ds))"
proof (intro conjI impI)
  assume "trim name_value = []"
  then show "saveDetection name_value phrase_value webhook_value reply listReply s
              = addLog NameAndPhraseRequired LWarning s"
    using assms by (rule saveDetection_rejects [rotated])
next
  assume "trim name_value \<noteq> [] \<and> trim phrase_value \<noteq> []
              \<and> trim webhook_value \<noteq> [] \<and> \<not> matches_http_url (trim webhook_value)"
  then show "saveDetection name_value phrase_value webhook_value reply listReply s
              = addLog InvalidWebhookUrl LWarning s"
    using saveDetection_rejects_webhook [OF assms] by blast
next
  assume "trim name_value \<noteq> [] \<and> trim phrase_value \<noteq> []
              \<and> (trim webhook_value = [] \<or> matches_http_url (trim webhook_value))"
  then show "\<exists>rest.
               app_trace (saveDetection name_value phrase_value webhook_value reply listReply s)
               = app_trace s
                 @ Fetch POST ''/api/detections''
                     [(''name'', trim name_value), (''phrase'', trim phrase_value),
                      (''webhook_url'', trim webhook_value)] # rest"
    using saveDetection_request [OF assms] by blast
next
  assume h: "trim name_value \<noteq> [] \<and> trim phrase_value \<noteq> []
              \<and> (trim webhook_value = [] \<or> matches_http_url (trim webhook_value))
              \<and> body_json r = Some e"
  let ?sent = "(emit (Fetch POST ''/api/detections''
                              [(''name'', trim name_value), (''phrase'', trim phrase_value),
                               (''webhook_url'', trim webhook_value)]) s)
                     \<lparr>modal_shown := False\<rparr>"
  have eq: "saveDetection name_value phrase_value webhook_value (Response True r) listReply s
         = emit (FormReset ''detection-form'')
             (addLog (DetectionDone ''ajoutee'' (trim name_value)) LSuccess
               ((loadDetections listReply (emit ModalHide ?sent))
                \<lparr>editDetectionId := None\<rparr>))"
    using saveDetection_posts [OF assms, of name_value phrase_value webhook_value r e listReply] h
    by blast
  show "\<not> modal_shown
                (saveDetection name_value phrase_value webhook_value (Response True r) listReply s)"
    unfolding eq by simp
  obtain rest where tr: "app_trace (loadDetections listReply (emit ModalHide ?sent))
      = app_trace (emit ModalHide ?sent) @ Fetch GET ''/api/detections'' [] # rest"
    using loadDetections_fields(3) by blast
  show "\<exists>rest.
                 app_trace
                   (saveDetection name_value phrase_value webhook_value (Response True r)
                      listReply s)
                 = app_trace s
                   @ [Fetch POST ''/api/detections''
                        [(''name'', trim name_value), (''phrase'', trim phrase_value),
                         (''webhook_url'', trim webhook_value)],
                      ModalHide, Fetch GET ''/api/detections'' []]
                   @ rest"
    unfolding eq by (simp add: tr)
  show "\<forall>ds. listReply = DetectionsArray ds \<longrightarrow>
                   detections_list
                     (saveDetection name_value phrase_value webhook_value (Response True r)
                        listReply s) = ds"
    unfolding eq by simp
qed

theorem saveDetection_create_witness:
  "saveDetection ''  '' ''la porte est ouverte'' [] (Throws ''unused'') (DetectionsArray [])
     app_idle = addLog NameAndPhraseRequired LWarning app_idle
   \<and> saveDetection ''Porte'' ''la porte est ouverte'' ''example.org/hook''
        (Throws ''unused'') (DetectionsArray []) app_idle
      = addLog InvalidWebhookUrl LWarning app_idle
   \<and> (\<exists>rest.
         app_trace (saveDetection ''Porte'' ''la porte est ouverte'' '' ''
                      (Throws ''Failed to fetch'') (DetectionsArray []) app_idle)
         = app_trace app_idle
           @ Fetch POST ''/api/detections''
               [(''name'', trim ''Porte''), (''phrase'', trim ''la porte est ouverte''),
                (''webhook_url'', trim '' '')] # rest)
   \<and> \<not> modal_shown
        (saveDetection ''Porte'' ''la porte est ouverte'' ''https://example.org/hook''
           (Response True json_error_response) (DetectionsArray one_detection) app_idle)
   \<and> detections_list
        (saveDetection ''Porte'' ''la porte est ouverte'' ''https://example.org/hook''
           (Response True json_error_response) (DetectionsArray one_detection) app_idle)
      = one_detection"
proof -
  have a: "\<not> truthy (editDetectionId app_idle)"
    by (simp add: app_idle_def truthy_def)
  have b: "trim ''  '' = []" "trim ''Porte'' \<noteq> []" "trim ''la porte est ouverte'' \<noteq> []"
    "trim '' '' = []"
    "trim ''example.org/hook'' \<noteq> []" "\<not> matches_http_url (trim ''example.org/hook'')"
    "matches_http_url (trim ''https://example.org/hook'')"
    by code_simp+
  have c: "body_json json_error_response = Some (Some ''duplicate'')"
    by (simp add: json_error_response_def)
  note first = saveDetection_create [OF a, of "''  ''" "''la porte est ouverte''" "[]"
        "Throws ''unused''" "DetectionsArray []"]
  note second = saveDetection_create [OF a, of "''Porte''" "''la porte est ouverte''"
        "''example.org/hook''" "Throws ''unused''" "DetectionsArray []"]
  note third = saveDetection_create [OF a, of "''Porte''" "''la porte est ouverte''"
        "'' ''" "Throws ''Failed to fetch''" "DetectionsArray []"]
  note fourth = saveDetection_create [OF a, of "''Porte''" "''la porte est ouverte''"
        "''https://example.org/hook''" _ "DetectionsArray one_detection"
        json_error_response "Some ''duplicate''"]
  show ?thesis
  proof (intro conjI)
    show "saveDetection ''  '' ''la porte est ouverte'' [] (Throws ''unused'')
            (DetectionsArray []) app_idle = addLog NameAndPhraseRequired LWarning app_idle"
      using first b(1) by blast
    show "saveDetection ''Porte'' ''la porte est ouverte'' ''example.org/hook''
            (Throws ''unused'') (DetectionsArray []) app_idle
          = addLog InvalidWebhookUrl LWarning app_idle"
      using second b(2,3,5,6) by blast
    show "\<exists>rest.
         app_trace (saveDetection ''Porte'' ''la porte est ouverte'' '' ''
                      (Throws ''Failed to fetch'') (DetectionsArray []) app_idle)
         = app_trace app_idle
           @ Fetch POST ''/api/detections''
               [(''name'', trim ''Porte''), (''phrase'', trim ''la porte est ouverte''),
                (''webhook_url'', trim '' '')] # rest"
      using third b(2,3,4) by blast
    show "\<not> modal_shown
        (saveDetection ''Porte'' ''la porte est ouverte'' ''https://example.org/hook''
           (Response True json_error_response) (DetectionsArray one_detection) app_idle)"
      using fourth b(2,3,7) c by blast
    show "detections_list
        (saveDetection ''Porte'' ''la porte est ouverte'' ''https://example.org/hook''
           (Response True json_error_response) (DetectionsArray one_detection) app_idle)
      = one_detection"
      using fourth b(2,3,7) c by blast
  qed
qed

text \<open>
  C6 as stated fails: with a name and a phrase but a webhook URL of another scheme
  \<^verbatim>\<open>saveDetection\<close> logs a warning and sends nothing.
\<close>

theorem saveDetection_create_counterexample:
  "trim ''Porte'' \<noteq> [] \<and> trim ''la porte est ouverte'' \<noteq> []
   \<and> saveDetection ''Porte'' ''la porte est ouverte'' ''ftp://example.org/hook''
        (Response True json_error_response) (DetectionsArray one_detection) app_idle
      = addLog InvalidWebhookUrl LWarning app_idle
   \<and> app_trace (addLog InvalidWebhookUrl LWarning app_idle) = [AddLog LWarning InvalidWebhookUrl]"
  by code_simp

text \<open>
  C9. A response that is ok and carries a JSON body reporting an error closes the
  modal, refreshes the list and resets the form, and the same body on a response that
  is not ok is surfaced as the error: success is read from the status alone. But a
  response that is ok, is typed \<^verbatim>\<open>application/json\<close> and has a body that is not JSON
  does not close the modal: \<^verbatim>\<open>response.json()\<close> has consumed the body when it
  rejects, the fallback \<^verbatim>\<open>response.text()\<close> throws, and the outer \<^verbatim>\<open>catch\<close> logs
  a save error.
\<close>

theorem saveDetection_mistyped_body:
  "app_trace (saveDetection ''Porte'' ''la porte est ouverte'' []
                (Response True json_html_response) (DetectionsArray one_detection) app_idle)
     = [Fetch POST ''/api/detections''
          [(''name'', ''Porte''), (''phrase'', ''la porte est ouverte''), (''webhook_url'', [])],
        AddLog LError (SaveError body_already_read)]
   \<and> modal_shown (saveDetection ''Porte'' ''la porte est ouverte'' []
                     (Response True json_html_response) (DetectionsArray one_detection) app_idle)
   \<and> detections_list (saveDetection ''Porte'' ''la porte est ouverte'' []
                     (Response True json_html_response) (DetectionsArray one_detection) app_idle)
      = []
   \<and> app_trace (saveDetection ''Porte'' ''la porte est ouverte'' []
                (Response True json_error_response) (DetectionsArray one_detection) app_idle)
     = [Fetch POST ''/api/detections''
          [(''name'', ''Porte''), (''phrase'', ''la porte est ouverte''), (''webhook_url'', [])],
        ModalHide, Fetch GET ''/api/detections'' [], AddLog LInfo (DetectionsLoaded 1),
        AddLog LSuccess (DetectionDone ''ajoutee'' ''Porte''), FormReset ''detection-form'']
   \<and> \<not> modal_shown (saveDetection ''Porte'' ''la porte est ouverte'' []
                     (Response True json_error_response) (DetectionsArray one_detection) app_idle)
   \<and> app_trace (saveDetection ''Porte'' ''la porte est ouverte'' []
                (Response False json_error_response) (DetectionsArray one_detection) app_idle)
     = [Fetch POST ''/api/detections''
          [(''name'', ''Porte''), (''phrase'', ''la porte est ouverte''), (''webhook_url'', [])],
        AddLog LError (ErrorColon ''duplicate'')]"
  by code_simp

theorem saveDetection_mistyped_body_witness:
  "modal_shown (saveDetection ''Porte'' ''la porte est ouverte'' []
                  (Response True json_html_response) (DetectionsArray one_detection) app_idle)
   \<and> \<not> modal_shown (saveDetection ''Porte'' ''la porte est ouverte'' []
                     (Response True json_error_response) (DetectionsArray one_detection) app_idle)"
  using saveDetection_mistyped_body by blast

section \<open>The round trip of camera descriptors\<close>












lemma set_first_named_names [simp]:
  "map f_name (set_first_named key v is) = map f_name is"
  by (induction "is") simp_all











lemma populate_fragment_id [simp]:
  "data_camera_id (populate_fragment d g) = data_camera_id g"
  by (simp add: populate_fragment_def)

lemma reloaded_id [simp]: "data_camera_id (reloaded k f) = cam_id k"
  by (simp add: reloaded_def new_fragment_def)













lemma cam_name_simps [simp]:
  "cam_id k @ CHR ''_'' # r \<noteq> ''id''"
  "cam_id k @ CHR ''_'' # r \<noteq> []"
  by (simp_all add: cam_id_def)
















end
